theory Spec2Isabelle
  imports Complex_Main "HOL-Library.Sublist"
begin

section \<open>Basic types\<close>

text \<open>
  A Python \<open>str\<close> whose length or content matters is a list of Unicode code points
  (\<open>len\<close> counts code points). Redis keys, which the program builds from ASCII
  literals and ASCII renderings, are \<open>string\<close>s. A point in time is a real number of
  seconds.
\<close>

type_synonym ustr = "nat list"

type_synonym time = real

definition ascii :: "string \<Rightarrow> ustr" where
  "ascii s = map of_char s"

datatype exn =
    Redis_error
  | Value_error
  | Runtime_error ustr
  | Http_status_error nat
  | Timeout_exception
  | Network_error
  | Retry_error exn
  | Validation_error

section \<open>Conversation states and the transition table (app/models.py, app/core/fsm.py)\<close>

datatype conversation_state =
    IDLE
  | COLLECTING_INTENT
  | BROWSING_SCHEDULE
  | COLLECTING_GROUP
  | COLLECTING_DATETIME
  | COLLECTING_CONTACT
  | CONFIRM_BOOKING
  | BOOKING_IN_PROGRESS
  | BOOKING_DONE
  | CANCEL_FLOW
  | SERIAL_BOOKING
  | HANDOFF_TO_ADMIN
  | ADMIN_RESPONDING

text \<open>The dictionary \<open>transitions\<close> of \<open>can_transition\<close>, entry by entry.\<close>

fun transitions :: "conversation_state \<Rightarrow> conversation_state list" where
  "transitions IDLE = [COLLECTING_INTENT, CANCEL_FLOW, HANDOFF_TO_ADMIN]"
| "transitions COLLECTING_INTENT =
     [BROWSING_SCHEDULE, COLLECTING_GROUP, COLLECTING_DATETIME, COLLECTING_CONTACT,
      IDLE, CANCEL_FLOW, HANDOFF_TO_ADMIN]"
| "transitions BROWSING_SCHEDULE = [COLLECTING_GROUP, IDLE, CANCEL_FLOW, HANDOFF_TO_ADMIN]"
| "transitions COLLECTING_GROUP = [COLLECTING_DATETIME, IDLE, CANCEL_FLOW, HANDOFF_TO_ADMIN]"
| "transitions COLLECTING_DATETIME = [COLLECTING_CONTACT, IDLE, CANCEL_FLOW, HANDOFF_TO_ADMIN]"
| "transitions COLLECTING_CONTACT = [CONFIRM_BOOKING, IDLE, CANCEL_FLOW, HANDOFF_TO_ADMIN]"
| "transitions CONFIRM_BOOKING = [BOOKING_IN_PROGRESS, IDLE, CANCEL_FLOW, HANDOFF_TO_ADMIN]"
| "transitions BOOKING_IN_PROGRESS = [BOOKING_DONE, IDLE, HANDOFF_TO_ADMIN]"
| "transitions BOOKING_DONE = [IDLE, SERIAL_BOOKING]"
| "transitions CANCEL_FLOW = [IDLE, HANDOFF_TO_ADMIN]"
| "transitions SERIAL_BOOKING = [COLLECTING_GROUP, IDLE, HANDOFF_TO_ADMIN]"
| "transitions HANDOFF_TO_ADMIN = [ADMIN_RESPONDING, IDLE]"
| "transitions ADMIN_RESPONDING = [IDLE]"

definition can_transition :: "conversation_state \<Rightarrow> conversation_state \<Rightarrow> bool" where
  "can_transition from_state to_state = (to_state \<in> set (transitions from_state))"

text \<open>The dictionary \<open>timeouts\<close>; \<open>dict.get\<close> gives \<open>None\<close> for every other state.\<close>

fun get_timeout_seconds :: "conversation_state \<Rightarrow> int option" where
  "get_timeout_seconds CONFIRM_BOOKING = Some (3 * 3600)"
| "get_timeout_seconds BOOKING_IN_PROGRESS = Some 30"
| "get_timeout_seconds ADMIN_RESPONDING = Some (4 * 3600)"
| "get_timeout_seconds _ = None"

definition is_terminal_state :: "conversation_state \<Rightarrow> bool" where
  "is_terminal_state st = (st = BOOKING_DONE)"

definition is_persistent_state :: "conversation_state \<Rightarrow> bool" where
  "is_persistent_state st = (st \<in> {HANDOFF_TO_ADMIN, ADMIN_RESPONDING})"

text \<open>
  The transition table as section 4.2 of the specification lists it, one line per source
  state, kept apart from \<open>transitions\<close> so that the two can be compared.
\<close>

fun spec_transition_table :: "conversation_state \<Rightarrow> conversation_state set" where
  "spec_transition_table IDLE = {COLLECTING_INTENT, CANCEL_FLOW, HANDOFF_TO_ADMIN}"
| "spec_transition_table COLLECTING_INTENT =
     {BROWSING_SCHEDULE, COLLECTING_GROUP, COLLECTING_DATETIME, COLLECTING_CONTACT,
      IDLE, CANCEL_FLOW, HANDOFF_TO_ADMIN}"
| "spec_transition_table BROWSING_SCHEDULE =
     {COLLECTING_GROUP, IDLE, CANCEL_FLOW, HANDOFF_TO_ADMIN}"
| "spec_transition_table COLLECTING_GROUP =
     {COLLECTING_DATETIME, IDLE, CANCEL_FLOW, HANDOFF_TO_ADMIN}"
| "spec_transition_table COLLECTING_DATETIME =
     {COLLECTING_CONTACT, IDLE, CANCEL_FLOW, HANDOFF_TO_ADMIN}"
| "spec_transition_table COLLECTING_CONTACT =
     {CONFIRM_BOOKING, IDLE, CANCEL_FLOW, HANDOFF_TO_ADMIN}"
| "spec_transition_table CONFIRM_BOOKING =
     {BOOKING_IN_PROGRESS, IDLE, CANCEL_FLOW, HANDOFF_TO_ADMIN}"
| "spec_transition_table BOOKING_IN_PROGRESS = {BOOKING_DONE, IDLE, HANDOFF_TO_ADMIN}"
| "spec_transition_table BOOKING_DONE = {IDLE, SERIAL_BOOKING}"
| "spec_transition_table CANCEL_FLOW = {IDLE, HANDOFF_TO_ADMIN}"
| "spec_transition_table SERIAL_BOOKING = {COLLECTING_GROUP, IDLE, HANDOFF_TO_ADMIN}"
| "spec_transition_table HANDOFF_TO_ADMIN = {ADMIN_RESPONDING, IDLE}"
| "spec_transition_table ADMIN_RESPONDING = {IDLE}"

section \<open>Sessions (app/models.py)\<close>

text \<open>
  \<open>datetime_resolved\<close> is a timezone-aware \<open>datetime\<close>; the program reads its date and
  its time of day only.
\<close>

record datetime =
  dt_year :: nat
  dt_month :: nat
  dt_day :: nat
  dt_hour :: nat
  dt_minute :: nat
  dt_second :: nat

record slot_values =
  group :: "ustr option"
  datetime_raw :: "ustr option"
  datetime_resolved :: "datetime option"
  client_name :: "ustr option"
  client_phone :: "ustr option"
  schedule_id :: "ustr option"
  messages :: "(ustr \<times> ustr) list"

record session =
  trace_id :: string
  channel :: string
  chat_id :: string
  state :: conversation_state
  slots :: slot_values
  created_at :: time
  updated_at :: time
  expires_at :: time

record settings =
  max_tokens_per_hour :: int
  max_cost_per_day_usd :: real
  max_requests_per_minute :: int
  max_errors_per_hour :: int
  session_ttl_hours :: int

section \<open>The Redis store (app/storage/redis.py)\<close>

text \<open>
  The schedule entries and the groups of the CRM (app/integrations/impulse/models.py), with
  the fields the adapter asks the CRM for.
\<close>

record schedule =
  sched_id :: int
  sched_group_id :: "int option"
  sched_teacher_id :: "int option"
  sched_hall_id :: "int option"
  sched_date :: string
  sched_time :: string
  sched_duration_minutes :: "int option"
  sched_max_students :: "int option"
  sched_current_students :: "int option"
  sched_is_active :: "bool option"

record group_rec =
  gr_id :: int
  gr_name :: ustr
  gr_style_id :: "int option"
  gr_teacher_id :: "int option"
  gr_description :: "ustr option"
  gr_is_active :: "bool option"

text \<open>
  An item of the fallback queue: the name of the adapter function that failed and the
  exception. The identifiers and the time stamp it also carries are left out.
\<close>

record fallback_item =
  fb_action :: string
  fb_error :: exn

text \<open>
  A value of the store is a Redis string. \<open>Int_str n\<close> stands for the decimal rendering
  of \<open>n\<close> (what \<open>INCRBY\<close> writes, and the literal \<open>"1"\<close> of the booking lock),
  \<open>Text\<close> for any other string, and the \<open>Json\<close> constructors for the documents
  \<open>set_json\<close> writes with \<open>json.dumps\<close> and \<open>get_json\<close> reads back with
  \<open>json.loads\<close>. \<open>Fallback_queue\<close> is a Redis list, newest item first. An entry
  carries the time at which it expires, if it has one; an entry whose time has come is no
  longer there.
\<close>

datatype redis_value =
    Int_str int
  | Text ustr
  | Json_schedules "schedule list"
  | Json_groups "group_rec list"
  | Json_session session
  | Fallback_queue "fallback_item list"

record redis_entry =
  entry_value :: redis_value
  entry_expiry :: "time option"

type_synonym redis = "string \<Rightarrow> redis_entry option"

definition live :: "time \<Rightarrow> redis \<Rightarrow> string \<Rightarrow> redis_entry option" where
  "live now r key =
     (case r key of
        None \<Rightarrow> None
      | Some e \<Rightarrow>
          (case entry_expiry e of
             None \<Rightarrow> Some e
           | Some t \<Rightarrow> if now < t then Some e else None))"

text \<open>\<open>SET key value EX ex\<close>: the server refuses an expiry that is not positive.\<close>

definition redis_set :: "time \<Rightarrow> redis \<Rightarrow> string \<Rightarrow> redis_value \<Rightarrow> int \<Rightarrow> exn + redis" where
  "redis_set now r key v ex =
     (if ex \<le> 0 then Inl Redis_error
      else Inr (r(key \<mapsto> \<lparr>entry_value = v, entry_expiry = Some (now + real_of_int ex)\<rparr>)))"

text \<open>\<open>GET\<close>: the string under a key that is there.\<close>

definition redis_get :: "time \<Rightarrow> redis \<Rightarrow> string \<Rightarrow> redis_value option" where
  "redis_get now r key = map_option entry_value (live now r key)"

text \<open>
  \<open>SET key value NX EX ex\<close>: one atomic command of the server. It writes only when the
  key is not there, and answers whether it wrote.
\<close>

definition redis_setnx ::
  "time \<Rightarrow> redis \<Rightarrow> string \<Rightarrow> redis_value \<Rightarrow> int \<Rightarrow> (exn + bool) \<times> redis" where
  "redis_setnx now r key v ex =
     (if ex \<le> 0 then (Inl Redis_error, r)
      else
        (case live now r key of
           Some _ \<Rightarrow> (Inr False, r)
         | None \<Rightarrow> (Inr True, r(key \<mapsto> \<lparr>entry_value = v, entry_expiry = Some (now + real_of_int ex)\<rparr>))))"

definition redis_delete :: "redis \<Rightarrow> string \<Rightarrow> redis" where
  "redis_delete r key = r(key := None)"

text \<open>\<open>EXPIRE key seconds\<close>: nothing happens to a key that is not there.\<close>

definition redis_expire :: "time \<Rightarrow> redis \<Rightarrow> string \<Rightarrow> int \<Rightarrow> redis" where
  "redis_expire now r key seconds =
     (case live now r key of
        None \<Rightarrow> r
      | Some e \<Rightarrow>
          if seconds \<le> 0 then r(key := None)
          else r(key \<mapsto> e\<lparr>entry_expiry := Some (now + real_of_int seconds)\<rparr>))"

text \<open>
  \<open>INCRBY key amount\<close>: a key that is not there counts as 0 and is created without an
  expiry; an existing key keeps its expiry. The server works on signed 64-bit integers and
  refuses a value that is not one, and a sum out of that range.
\<close>

definition int64_ok :: "int \<Rightarrow> bool" where
  "int64_ok n = (- (2 ^ 63) \<le> n \<and> n < 2 ^ 63)"

definition redis_incr :: "time \<Rightarrow> redis \<Rightarrow> string \<Rightarrow> int \<Rightarrow> (exn + int) \<times> redis" where
  "redis_incr now r key amount =
     (if \<not> int64_ok amount then (Inl Redis_error, r)
      else
        (case live now r key of
           None \<Rightarrow> (Inr amount, r(key \<mapsto> \<lparr>entry_value = Int_str amount, entry_expiry = None\<rparr>))
         | Some e \<Rightarrow>
             (case entry_value e of
                Int_str n \<Rightarrow>
                  if int64_ok (n + amount)
                  then (Inr (n + amount), r(key \<mapsto> e\<lparr>entry_value := Int_str (n + amount)\<rparr>))
                  else (Inl Redis_error, r)
              | _ \<Rightarrow> (Inl Redis_error, r))))"

text \<open>
  \<open>scan_delete\<close> with a pattern that is a literal text followed by \<open>*\<close>: the scan
  loop runs until the cursor is back at 0, and every key that starts with the text is
  deleted.
\<close>

definition scan_delete :: "redis \<Rightarrow> string \<Rightarrow> redis" where
  "scan_delete r pat_prefix = (\<lambda>key. if prefix pat_prefix key then None else r key)"

section \<open>Rendering numbers and dates\<close>

definition digit_char :: "nat \<Rightarrow> char" where
  "digit_char d = ''0123456789'' ! d"

fun str_nat :: "nat \<Rightarrow> string" where
  "str_nat n = (if n < 10 then [digit_char n] else str_nat (n div 10) @ [digit_char (n mod 10)])"

declare str_nat.simps [simp del]

definition str_int :: "int \<Rightarrow> string" where
  "str_int i = (if i < 0 then CHR ''-'' # str_nat (nat (- i)) else str_nat (nat i))"

text \<open>The \<open>%02d\<close> and \<open>%04d\<close> of \<open>isoformat\<close> and \<open>strftime\<close>.\<close>

definition zero_pad :: "nat \<Rightarrow> nat \<Rightarrow> string" where
  "zero_pad w n = replicate (w - length (str_nat n)) CHR ''0'' @ str_nat n"

definition date_isoformat :: "datetime \<Rightarrow> string" where
  "date_isoformat d =
     zero_pad 4 (dt_year d) @ ''-'' @ zero_pad 2 (dt_month d) @ ''-'' @ zero_pad 2 (dt_day d)"

definition time_hm :: "datetime \<Rightarrow> string" where
  "time_hm d = zero_pad 2 (dt_hour d) @ '':'' @ zero_pad 2 (dt_minute d)"

text \<open>\<open>isoformat()\<close> of a UTC \<open>datetime\<close> whose microseconds are 0.\<close>

definition isoformat :: "datetime \<Rightarrow> string" where
  "isoformat d =
     date_isoformat d @ ''T'' @ time_hm d @ '':'' @ zero_pad 2 (dt_second d) @ ''+00:00''"

section \<open>The budget guard (app/ai/budget_guard.py)\<close>

text \<open>
  Every operation reads the clock once: \<open>utc\<close> is \<open>datetime.now(timezone.utc)\<close> with
  its microseconds dropped, from which the bucket's key is built, and \<open>now\<close> is the same
  instant in seconds, against which the store counts expiry. Costs are Python floats; they
  are taken as the real numbers they stand for.
\<close>

definition get_hour_key :: "datetime \<Rightarrow> string" where
  "get_hour_key utc = ''budget:tokens:hour:'' @ isoformat (utc\<lparr>dt_minute := 0, dt_second := 0\<rparr>)"

definition get_day_key :: "datetime \<Rightarrow> string" where
  "get_day_key utc = ''budget:cost:day:'' @ date_isoformat utc"

definition get_minute_key :: "datetime \<Rightarrow> string" where
  "get_minute_key utc = ''budget:requests:minute:'' @ isoformat (utc\<lparr>dt_second := 0\<rparr>)"

definition get_errors_hour_key :: "datetime \<Rightarrow> string" where
  "get_errors_hour_key utc =
     ''budget:errors:hour:'' @ isoformat (utc\<lparr>dt_minute := 0, dt_second := 0\<rparr>)"

text \<open>
  \<open>int(s) if s else 0\<close> and \<open>int(s or "0")\<close> on what \<open>get\<close> returned: no key and
  the empty string count as 0, and a string that is not an integer raises.
\<close>

fun read_count :: "redis_value option \<Rightarrow> exn + int" where
  "read_count None = Inr 0"
| "read_count (Some (Int_str n)) = Inr n"
| "read_count (Some (Text s)) = (if s = [] then Inr 0 else Inl Value_error)"
| "read_count (Some _) = Inl Value_error"

definition check_tokens_per_hour ::
  "settings \<Rightarrow> time \<Rightarrow> datetime \<Rightarrow> int \<Rightarrow> redis \<Rightarrow> (exn + bool \<times> int) \<times> redis" where
  "check_tokens_per_hour cfg now utc tokens r =
     (let key = get_hour_key utc in
      case read_count (redis_get now r key) of
        Inl e \<Rightarrow> (Inl e, r)
      | Inr current \<Rightarrow>
          if current + tokens > max_tokens_per_hour cfg
          then (Inr (False, current), redis_expire now r key 3600)
          else
            (case redis_incr now r key tokens of
               (Inl e, r') \<Rightarrow> (Inl e, r')
             | (Inr new_count, r') \<Rightarrow> (Inr (True, new_count), redis_expire now r' key 3600)))"




definition record_error ::
  "settings \<Rightarrow> time \<Rightarrow> datetime \<Rightarrow> redis \<Rightarrow> (exn + bool) \<times> redis" where
  "record_error cfg now utc r =
     (let key = get_errors_hour_key utc in
      case redis_incr now r key 1 of
        (Inl e, r') \<Rightarrow> (Inl e, r')
      | (Inr current, r') \<Rightarrow>
          (Inr (current \<le> max_errors_per_hour cfg), redis_expire now r' key 3600))"



section \<open>Saving a session and changing its state (app/core/conversation.py)\<close>

definition get_session_key :: "string \<Rightarrow> string \<Rightarrow> string" where
  "get_session_key ch cid = ''session:'' @ ch @ '':'' @ cid"

text \<open>
  \<open>save_session\<close> changes the session object in place before it writes, so the session
  is returned changed also when the write raises.
\<close>

definition save_session ::
  "settings \<Rightarrow> time \<Rightarrow> session \<Rightarrow> redis \<Rightarrow> (exn + unit) \<times> session \<times> redis" where
  "save_session cfg now s r =
     (let key = get_session_key (channel s) (chat_id s);
          s1 = s\<lparr>updated_at := now\<rparr>;
          ttl_seconds =
            (case get_timeout_seconds (state s1) of
               Some t \<Rightarrow> if t \<noteq> 0 then t else session_ttl_hours cfg * 3600
             | None \<Rightarrow> session_ttl_hours cfg * 3600);
          s2 = s1\<lparr>expires_at := now + real_of_int ttl_seconds\<rparr>
      in case redis_set now r key (Json_session s2) ttl_seconds of
           Inl e \<Rightarrow> (Inl e, s2, r)
         | Inr r' \<Rightarrow> (Inr (), s2, r'))"

definition transition_state ::
  "settings \<Rightarrow> time \<Rightarrow> session \<Rightarrow> conversation_state \<Rightarrow> redis \<Rightarrow>
   (exn + bool) \<times> session \<times> redis" where
  "transition_state cfg now s new_state r =
     (if \<not> can_transition (state s) new_state then (Inr False, s, r)
      else
        (case save_session cfg now (s\<lparr>state := new_state\<rparr>) r of
           (Inl e, s', r') \<Rightarrow> (Inl e, s', r')
         | (Inr _, s', r') \<Rightarrow> (Inr True, s', r')))"

section \<open>The booking receipt (app/core/booking_flow.py)\<close>

text \<open>The client and the reservation of the CRM (app/integrations/impulse/models.py).\<close>

record client =
  cl_id :: int
  cl_name :: ustr
  cl_phone :: ustr
  cl_email :: "ustr option"
  cl_informer_id :: "int option"

record reservation =
  rs_id :: int
  rs_client_id :: int
  rs_schedule_id :: int
  rs_status_id :: "int option"
  rs_notes :: "ustr option"

text \<open>
  The receipt template, cut at its six placeholders. Each piece is the list of the code
  points of the source text between two placeholders; a line break is 10.
\<close>

definition receipt_head :: ustr where
  "receipt_head =
     [9989, 32, 1047, 1072, 1087, 1080, 1089, 1100, 32, 1087, 1086, 1076, 1090, 1074, 1077, 1088,
      1078, 1076, 1077, 1085, 1072, 33, 10, 10, 1053, 1072, 1087, 1088, 1072, 1074, 1083, 1077,
      1085, 1080, 1077, 58, 32]"

definition receipt_datetime_label :: ustr where
  "receipt_datetime_label =
     [10, 1044, 1072, 1090, 1072, 32, 1080, 32, 1074, 1088, 1077, 1084, 1103, 58, 32]"

definition receipt_name_label :: ustr where
  "receipt_name_label = [10, 1048, 1084, 1103, 58, 32]"

definition receipt_phone_label :: ustr where
  "receipt_phone_label = [10, 1058, 1077, 1083, 1077, 1092, 1086, 1085, 58, 32]"

definition receipt_address_label :: ustr where
  "receipt_address_label = [10, 1040, 1076, 1088, 1077, 1089, 58, 32]"

definition receipt_number_label :: ustr where
  "receipt_number_label =
     [10, 10, 1053, 1086, 1084, 1077, 1088, 32, 1079, 1072, 1087, 1080, 1089, 1080, 58, 32]"

definition receipt_tail :: ustr where
  "receipt_tail =
     [10, 1053, 1072, 1087, 1086, 1084, 1085, 1102, 32, 1079, 1072, 32, 1076, 1077, 1085, 1100,
      32, 1076, 1086, 32, 1079, 1072, 1085, 1103, 1090, 1080, 1103, 33]"

definition not_specified :: ustr where
  "not_specified = [1085, 1077, 32, 1091, 1082, 1072, 1079, 1072, 1085, 1086]"

definition ellipsis :: ustr where
  "ellipsis = [46, 46, 46]"

text \<open>
  \<open>str.replace(old, new)\<close>: every occurrence of \<open>old\<close> is replaced, scanning from the
  left and continuing behind each replaced occurrence. For an empty \<open>old\<close>, \<open>new\<close> is
  put before every character and at the end.
\<close>

function replace_nonempty :: "'a list \<Rightarrow> 'a list \<Rightarrow> 'a list \<Rightarrow> 'a list" where
  "replace_nonempty old new [] = []"
| "replace_nonempty old new (c # cs) =
     (if old \<noteq> [] \<and> prefix old (c # cs)
      then new @ replace_nonempty old new (drop (length old) (c # cs))
      else c # replace_nonempty old new cs)"
  by pat_completeness auto
termination
  by (relation "measure (\<lambda>(old, new, s). length s)") auto

definition py_replace :: "'a list \<Rightarrow> 'a list \<Rightarrow> 'a list \<Rightarrow> 'a list" where
  "py_replace old new s =
     (if old = [] then new @ concat (map (\<lambda>c. c # new) s) else replace_nonempty old new s)"

text \<open>\<open>strftime("%d.%m.%Y %H:%M")\<close>, for a year of four digits.\<close>

definition strftime_dmy_hm :: "datetime \<Rightarrow> string" where
  "strftime_dmy_hm d =
     zero_pad 2 (dt_day d) @ ''.'' @ zero_pad 2 (dt_month d) @ ''.'' @ zero_pad 4 (dt_year d) @
     '' '' @ time_hm d"

text \<open>\<open>slots.group or "..."\<close>: the default stands in for no group and for the empty one.\<close>

definition receipt_group :: "slot_values \<Rightarrow> ustr" where
  "receipt_group sl = (case group sl of Some g \<Rightarrow> if g \<noteq> [] then g else not_specified
                                       | None \<Rightarrow> not_specified)"

definition receipt_datetime_str :: "slot_values \<Rightarrow> ustr" where
  "receipt_datetime_str sl =
     (case datetime_resolved sl of
        Some d \<Rightarrow> ascii (strftime_dmy_hm d)
      | None \<Rightarrow>
          (case datetime_raw sl of
             Some raw \<Rightarrow> if raw \<noteq> [] then raw else not_specified
           | None \<Rightarrow> not_specified))"

definition format_receipt :: "ustr \<Rightarrow> ustr \<Rightarrow> ustr \<Rightarrow> ustr \<Rightarrow> ustr \<Rightarrow> int \<Rightarrow> ustr" where
  "format_receipt grp datetime_str name phone address reservation_id =
     receipt_head @ grp @ receipt_datetime_label @ datetime_str @ receipt_name_label @ name @
     receipt_phone_label @ phone @ receipt_address_label @ address @ receipt_number_label @
     ascii (str_int reservation_id) @ receipt_tail"

text \<open>
  \<open>_generate_booking_receipt\<close>. \<open>studio_address\<close> is the address of the knowledge base.
\<close>

definition generate_booking_receipt :: "ustr \<Rightarrow> reservation \<Rightarrow> client \<Rightarrow> slot_values \<Rightarrow> ustr" where
  "generate_booking_receipt studio_address res cl sl =
     (let receipt = format_receipt (receipt_group sl) (receipt_datetime_str sl) (cl_name cl)
                      (cl_phone cl) studio_address (rs_id res)
      in if length receipt > 300
         then
           (let base_length = int (length receipt) - int (length studio_address);
                max_address_len = 300 - base_length - 3
            in if max_address_len > 0
               then py_replace studio_address
                      (take (nat max_address_len) studio_address @ ellipsis) receipt
               else take 297 receipt @ ellipsis)
         else receipt)"

section \<open>The CRM client: circuit breaker and retry (app/integrations/impulse/client.py)\<close>

text \<open>The breaker of the CRM client. Its clock is \<open>time.time()\<close>.\<close>

record circuit_breaker =
  failure_threshold :: int
  timeout_seconds :: int
  failure_count :: int
  last_failure_time :: "time option"
  is_open :: bool

text \<open>\<open>CircuitBreaker()\<close>, as \<open>ImpulseClient\<close> creates it: the defaults 5 and 60.\<close>

definition new_circuit_breaker :: circuit_breaker where
  "new_circuit_breaker =
     \<lparr>failure_threshold = 5, timeout_seconds = 60, failure_count = 0,
      last_failure_time = None, is_open = False\<rparr>"

definition record_success :: "circuit_breaker \<Rightarrow> circuit_breaker" where
  "record_success cb = cb\<lparr>failure_count := 0, is_open := False, last_failure_time := None\<rparr>"

definition record_failure :: "time \<Rightarrow> circuit_breaker \<Rightarrow> bool \<times> circuit_breaker" where
  "record_failure now cb =
     (let cb1 = cb\<lparr>failure_count := failure_count cb + 1, last_failure_time := Some now\<rparr>
      in if failure_count cb1 \<ge> failure_threshold cb1
         then (True, cb1\<lparr>is_open := True\<rparr>)
         else (False, cb1))"

definition should_attempt :: "time \<Rightarrow> circuit_breaker \<Rightarrow> bool \<times> circuit_breaker" where
  "should_attempt now cb =
     (if \<not> is_open cb then (True, cb)
      else
        (case last_failure_time cb of
           None \<Rightarrow> (True, cb)
         | Some t \<Rightarrow>
             if now - t > real_of_int (timeout_seconds cb)
             then (True, cb\<lparr>is_open := False, failure_count := 0\<rparr>)
             else (False, cb)))"

text \<open>
  What the CRM answers to one HTTP exchange. \<open>Reply_ok\<close> is a response on which
  \<open>raise_for_status\<close> does not raise, with its status code and body;
  \<open>Reply_status\<close> is a response with an error status (4xx, 5xx), on which it raises
  \<open>httpx.HTTPStatusError\<close>; \<open>Reply_timeout\<close> is \<open>httpx.TimeoutException\<close>, and
  \<open>Reply_network_error\<close> any other transport error of httpx. A body is valid JSON or
  not; valid JSON is a list of rows (or an object with such a list under \<open>data\<close>), a
  single object, or something else.
\<close>

datatype row =
    Schedule_row schedule
  | Group_row group_rec
  | Client_row client
  | Reservation_row reservation
  | Other_row

datatype body = Json_rows "row list" | Json_object row | Json_scalar | Not_json

datatype reply = Reply_ok nat body | Reply_status nat | Reply_timeout | Reply_network_error

datatype jvalue =
  J_null | J_int int | J_str ustr | J_names "string list" | J_dict "(string \<times> jvalue) list"

record request =
  rq_method :: string
  rq_entity :: string
  rq_action :: string
  rq_data :: "(string \<times> jvalue) list"

text \<open>
  The CRM is a function from the requests it has received so far, the last one being the
  one to answer, to its reply.
\<close>

type_synonym server = "request list \<Rightarrow> reply"

text \<open>
  The state of the client: its breaker, the requests it has put on the network, and the
  pauses the retry loop has slept.
\<close>

record client_state =
  breaker :: circuit_breaker
  net_log :: "request list"
  sleeps :: "real list"

definition circuit_open_text :: ustr where
  "circuit_open_text = ascii ''Circuit breaker is open''"

text \<open>
  The body of \<open>_request\<close>, one attempt. The HTTP exchange itself takes no time in the
  model.
\<close>

definition request_once ::
  "server \<Rightarrow> time \<Rightarrow> client_state \<Rightarrow> request \<Rightarrow> (exn + nat \<times> body) \<times> client_state" where
  "request_once srv now cs rq =
     (case should_attempt now (breaker cs) of
        (False, cb) \<Rightarrow> (Inl (Runtime_error circuit_open_text), cs\<lparr>breaker := cb\<rparr>)
      | (True, cb) \<Rightarrow>
          (let history = net_log cs @ [rq] in
           case srv history of
             Reply_ok status b \<Rightarrow>
               (Inr (status, b), cs\<lparr>breaker := record_success cb, net_log := history\<rparr>)
           | Reply_status code \<Rightarrow>
               (Inl (Http_status_error code),
                cs\<lparr>breaker := snd (record_failure now cb), net_log := history\<rparr>)
           | Reply_timeout \<Rightarrow>
               (Inl Timeout_exception,
                cs\<lparr>breaker := snd (record_failure now cb), net_log := history\<rparr>)
           | Reply_network_error \<Rightarrow>
               (Inl Network_error,
                cs\<lparr>breaker := snd (record_failure now cb), net_log := history\<rparr>)))"

text \<open>
  \<open>retry_if_exception_type((httpx.HTTPError, httpx.TimeoutException))\<close>:
  \<open>HTTPStatusError\<close>, \<open>TimeoutException\<close> and the other transport errors are all
  subclasses of \<open>httpx.HTTPError\<close>; \<open>RuntimeError\<close> is not.
\<close>

fun is_http_error :: "exn \<Rightarrow> bool" where
  "is_http_error (Http_status_error _) = True"
| "is_http_error Timeout_exception = True"
| "is_http_error Network_error = True"
| "is_http_error _ = False"

text \<open>
  \<open>wait_exponential(multiplier, min, max)\<close> after the attempt of the given number:
  \<open>multiplier * 2 ** (attempt_number - 1)\<close>, kept between \<open>min\<close> and \<open>max\<close>.
\<close>

definition wait_exponential :: "real \<Rightarrow> real \<Rightarrow> real \<Rightarrow> nat \<Rightarrow> real" where
  "wait_exponential multiplier mn mx attempt_number =
     max (max 0 mn) (min (multiplier * 2 ^ (attempt_number - 1)) mx)"

text \<open>
  The \<open>@retry\<close> decorator of \<open>_request\<close> with \<open>stop_after_attempt(3)\<close>: an
  exception of the retried kind leads to a pause and another attempt until the third
  attempt has failed, and then to \<open>RetryError\<close>; any other exception passes through.
\<close>

function retrying ::
  "server \<Rightarrow> time \<Rightarrow> nat \<Rightarrow> client_state \<Rightarrow> request \<Rightarrow> (exn + nat \<times> body) \<times> client_state" where
  "retrying srv now attempt_number cs rq =
     (case request_once srv now cs rq of
        (Inr resp, cs') \<Rightarrow> (Inr resp, cs')
      | (Inl e, cs') \<Rightarrow>
          if \<not> is_http_error e then (Inl e, cs')
          else if attempt_number \<ge> 3 then (Inl (Retry_error e), cs')
          else
            (let w = wait_exponential 1 1 10 attempt_number
             in retrying srv (now + w) (attempt_number + 1) (cs'\<lparr>sleeps := sleeps cs' @ [w]\<rparr>) rq))"
  by pat_completeness auto
termination
  by (relation "measure (\<lambda>(srv, now, n, cs, rq). 3 - n)") auto

declare retrying.simps [simp del]

definition request ::
  "server \<Rightarrow> time \<Rightarrow> client_state \<Rightarrow> request \<Rightarrow> (exn + nat \<times> body) \<times> client_state" where
  "request srv now cs rq = retrying srv now 1 cs rq"

text \<open>The exception one exchange raises in \<open>_request\<close>, if it raises.\<close>

fun reply_exn :: "reply \<Rightarrow> exn option" where
  "reply_exn (Reply_ok _ _) = None"
| "reply_exn (Reply_status code) = Some (Http_status_error code)"
| "reply_exn Reply_timeout = Some Timeout_exception"
| "reply_exn Reply_network_error = Some Network_error"

text \<open>The breaker after failures recorded at the given times, one after the other.\<close>

fun after_failures :: "time list \<Rightarrow> circuit_breaker \<Rightarrow> circuit_breaker" where
  "after_failures [] cb = cb"
| "after_failures (t # ts) cb = after_failures ts (snd (record_failure t cb))"

section \<open>The cache of CRM data (app/integrations/impulse/cache.py)\<close>

text \<open>\<open>":".join(parts)\<close>.\<close>

fun join_colon :: "string list \<Rightarrow> string" where
  "join_colon [] = []"
| "join_colon [x] = x"
| "join_colon (x # y # ys) = x @ '':'' @ join_colon (y # ys)"

definition cache_get_key :: "string \<Rightarrow> string list \<Rightarrow> string" where
  "cache_get_key entity parts = join_colon ((''impulse:cache:'' @ entity) # parts)"

definition cache_get_ttl :: "string \<Rightarrow> int" where
  "cache_get_ttl entity =
     (if entity = ''schedule'' then 15 * 60
      else if entity \<in> {''group'', ''groups''} then 60 * 60
      else if entity \<in> {''teacher'', ''teachers''} then 60 * 60
      else 60 * 60)"

text \<open>
  \<open>get_json\<close>: no key gives \<open>None\<close>; a text that is not JSON makes \<open>json.loads\<close>
  raise, and \<open>GET\<close> on a list is refused by the server.
\<close>

definition get_json :: "time \<Rightarrow> redis \<Rightarrow> string \<Rightarrow> exn + redis_value option" where
  "get_json now r key =
     (case redis_get now r key of
        None \<Rightarrow> Inr None
      | Some (Text s) \<Rightarrow> Inl Value_error
      | Some (Fallback_queue q) \<Rightarrow> Inl Redis_error
      | Some v \<Rightarrow> Inr (Some v))"

definition cache_get :: "time \<Rightarrow> redis \<Rightarrow> string \<Rightarrow> string list \<Rightarrow> exn + redis_value option" where
  "cache_get now r entity key_parts = get_json now r (cache_get_key entity key_parts)"

definition cache_set ::
  "time \<Rightarrow> redis \<Rightarrow> string \<Rightarrow> redis_value \<Rightarrow> string list \<Rightarrow> exn + redis" where
  "cache_set now r entity v key_parts =
     redis_set now r (cache_get_key entity key_parts) v (cache_get_ttl entity)"

definition clear_entity :: "redis \<Rightarrow> string \<Rightarrow> redis" where
  "clear_entity r entity = scan_delete r (''impulse:cache:'' @ entity @ '':'')"

text \<open>
  The fallback queue (app/integrations/impulse/fallback.py): \<open>LPUSH\<close> puts the item in
  front; the server refuses it on a key that holds something else. The alert to the
  administrator that follows is outside the model and cannot fail the call.
\<close>

definition lpush :: "time \<Rightarrow> redis \<Rightarrow> string \<Rightarrow> fallback_item \<Rightarrow> exn + redis" where
  "lpush now r key item =
     (case live now r key of
        None \<Rightarrow> Inr (r(key \<mapsto> \<lparr>entry_value = Fallback_queue [item], entry_expiry = None\<rparr>))
      | Some e \<Rightarrow>
          (case entry_value e of
             Fallback_queue q \<Rightarrow> Inr (r(key \<mapsto> e\<lparr>entry_value := Fallback_queue (item # q)\<rparr>))
           | _ \<Rightarrow> Inl Redis_error))"

definition enqueue :: "time \<Rightarrow> redis \<Rightarrow> string \<Rightarrow> exn \<Rightarrow> exn + redis" where
  "enqueue now r action e =
     lpush now r ''impulse:fallback:queue'' \<lparr>fb_action = action, fb_error = e\<rparr>"

text \<open>
  The \<open>except Exception\<close> clause every adapter function ends with. \<open>handle_error\<close>
  (app/integrations/impulse/error_handler.py) maps the exception to a message for the user
  and to the decision whether to queue the request; it is a parameter here, so what follows
  holds for every such mapping. The result is the exception the adapter raises.
\<close>

type_synonym error_handler = "exn \<Rightarrow> ustr \<times> bool"

definition handle_failure ::
  "error_handler \<Rightarrow> time \<Rightarrow> redis \<Rightarrow> string \<Rightarrow> exn \<Rightarrow> exn \<times> redis" where
  "handle_failure handle_error now r action e =
     (case handle_error e of
        (user_msg, should_fallback) \<Rightarrow>
          if should_fallback
          then (case enqueue now r action e of
                  Inl e' \<Rightarrow> (e', r)
                | Inr r' \<Rightarrow> (Runtime_error user_msg, r'))
          else (Runtime_error user_msg, r))"

text \<open>
  \<open>ImpulseClient.list\<close> and \<open>ImpulseClient.create\<close>. The adapter never passes a sort
  order.
\<close>

definition list_data ::
  "string list \<Rightarrow> (string \<times> jvalue) list \<Rightarrow> int \<Rightarrow> int \<Rightarrow> (string \<times> jvalue) list" where
  "list_data field_names filters limit page =
     [(''limit'', J_int limit), (''page'', J_int page)] @
     (if field_names \<noteq> [] then [(''fields'', J_names field_names)] else []) @
     (if filters \<noteq> [] then [(''columns'', J_dict filters)] else [])"

definition list_request :: "string \<Rightarrow> string list \<Rightarrow> (string \<times> jvalue) list \<Rightarrow> int \<Rightarrow> request" where
  "list_request entity field_names filters limit =
     \<lparr>rq_method = ''POST'', rq_entity = entity, rq_action = ''list'',
      rq_data = list_data field_names filters limit 1\<rparr>"

definition client_list ::
  "server \<Rightarrow> time \<Rightarrow> client_state \<Rightarrow> string \<Rightarrow> string list \<Rightarrow> (string \<times> jvalue) list \<Rightarrow> int \<Rightarrow>
   (exn + row list) \<times> client_state" where
  "client_list srv now cs entity field_names filters limit =
     (case request srv now cs (list_request entity field_names filters limit) of
        (Inl e, cs') \<Rightarrow> (Inl e, cs')
      | (Inr (status, b), cs') \<Rightarrow>
          (case b of
             Not_json \<Rightarrow> (Inl Value_error, cs')
           | Json_rows rows \<Rightarrow> (Inr rows, cs')
           | _ \<Rightarrow> (Inr [], cs')))"

definition create_request :: "string \<Rightarrow> (string \<times> jvalue) list \<Rightarrow> request" where
  "create_request entity data =
     \<lparr>rq_method = ''POST'', rq_entity = entity, rq_action = ''update'', rq_data = data\<rparr>"

definition client_create ::
  "server \<Rightarrow> time \<Rightarrow> client_state \<Rightarrow> string \<Rightarrow> (string \<times> jvalue) list \<Rightarrow>
   (exn + body) \<times> client_state" where
  "client_create srv now cs entity data =
     (case request srv now cs (create_request entity data) of
        (Inl e, cs') \<Rightarrow> (Inl e, cs')
      | (Inr (status, b), cs') \<Rightarrow>
          (case b of Not_json \<Rightarrow> (Inl Value_error, cs') | _ \<Rightarrow> (Inr b, cs')))"

text \<open>
  \<open>Schedule(**item)\<close> and its like: a row of the right kind gives the object, any other
  row a validation error; in a list the first bad row raises.
\<close>

fun as_schedule :: "row \<Rightarrow> exn + schedule" where
  "as_schedule (Schedule_row x) = Inr x"
| "as_schedule _ = Inl Validation_error"

fun as_group :: "row \<Rightarrow> exn + group_rec" where
  "as_group (Group_row x) = Inr x"
| "as_group _ = Inl Validation_error"

fun as_client :: "row \<Rightarrow> exn + client" where
  "as_client (Client_row x) = Inr x"
| "as_client _ = Inl Validation_error"

fun as_reservation :: "row \<Rightarrow> exn + reservation" where
  "as_reservation (Reservation_row x) = Inr x"
| "as_reservation _ = Inl Validation_error"

fun parse_all :: "(row \<Rightarrow> exn + 'a) \<Rightarrow> row list \<Rightarrow> exn + 'a list" where
  "parse_all f [] = Inr []"
| "parse_all f (x # xs) =
     (case f x of
        Inl e \<Rightarrow> Inl e
      | Inr y \<Rightarrow> (case parse_all f xs of Inl e \<Rightarrow> Inl e | Inr ys \<Rightarrow> Inr (y # ys)))"

fun parse_object :: "(row \<Rightarrow> exn + 'a) \<Rightarrow> body \<Rightarrow> exn + 'a" where
  "parse_object f (Json_object x) = f x"
| "parse_object f _ = Inl Validation_error"

text \<open>A \<open>date\<close>, and how an f-string renders it and an optional value.\<close>

record pydate =
  pd_year :: nat
  pd_month :: nat
  pd_day :: nat

definition pydate_isoformat :: "pydate \<Rightarrow> string" where
  "pydate_isoformat d =
     zero_pad 4 (pd_year d) @ ''-'' @ zero_pad 2 (pd_month d) @ ''-'' @ zero_pad 2 (pd_day d)"

definition str_opt :: "('a \<Rightarrow> string) \<Rightarrow> 'a option \<Rightarrow> string" where
  "str_opt f x = (case x of None \<Rightarrow> ''None'' | Some y \<Rightarrow> f y)"

section \<open>The CRM adapter (app/integrations/impulse/adapter.py)\<close>

definition schedule_fields :: "string list" where
  "schedule_fields =
     [''id'', ''group_id'', ''teacher_id'', ''hall_id'', ''date'', ''time'', ''duration_minutes'',
      ''max_students'', ''current_students'', ''is_active'']"

definition schedule_cache_key :: "pydate option \<Rightarrow> pydate option \<Rightarrow> int option \<Rightarrow> string" where
  "schedule_cache_key date_from date_to group_id =
     str_opt pydate_isoformat date_from @ ''_'' @ str_opt pydate_isoformat date_to @ ''_'' @
     str_opt str_int group_id"

definition schedule_filters :: "pydate option \<Rightarrow> int option \<Rightarrow> (string \<times> jvalue) list" where
  "schedule_filters date_from group_id =
     (case date_from of None \<Rightarrow> [] | Some d \<Rightarrow> [(''date'', J_str (ascii (pydate_isoformat d)))]) @
     (case group_id of None \<Rightarrow> [] | Some g \<Rightarrow> if g \<noteq> 0 then [(''group_id'', J_int g)] else [])"

definition get_schedule ::
  "error_handler \<Rightarrow> server \<Rightarrow> time \<Rightarrow> redis \<Rightarrow> client_state \<Rightarrow>
   pydate option \<Rightarrow> pydate option \<Rightarrow> int option \<Rightarrow>
   (exn + schedule list) \<times> redis \<times> client_state" where
  "get_schedule handle_error srv now r cs date_from date_to group_id =
     (let cache_key = schedule_cache_key date_from date_to group_id;
          fail = (\<lambda>e cs'. case handle_failure handle_error now r ''get_schedule'' e of
                            (e', r') \<Rightarrow> (Inl e', r', cs'))
      in case cache_get now r ''schedule'' [cache_key] of
           Inl e \<Rightarrow> fail e cs
         | Inr (Some (Json_schedules cached)) \<Rightarrow> (Inr cached, r, cs)
         | Inr (Some _) \<Rightarrow> fail Validation_error cs
         | Inr None \<Rightarrow>
             (case client_list srv now cs ''schedule'' schedule_fields
                     (schedule_filters date_from group_id) 1000 of
                (Inl e, cs') \<Rightarrow> fail e cs'
              | (Inr data, cs') \<Rightarrow>
                  (case parse_all as_schedule data of
                     Inl e \<Rightarrow> fail e cs'
                   | Inr schedules \<Rightarrow>
                       (case cache_set now r ''schedule'' (Json_schedules schedules) [cache_key] of
                          Inl e \<Rightarrow> fail e cs'
                        | Inr r' \<Rightarrow> (Inr schedules, r', cs')))))"

definition group_fields :: "string list" where
  "group_fields = [''id'', ''name'', ''style_id'', ''teacher_id'', ''description'', ''is_active'']"

definition get_groups ::
  "error_handler \<Rightarrow> server \<Rightarrow> time \<Rightarrow> redis \<Rightarrow> client_state \<Rightarrow>
   (exn + group_rec list) \<times> redis \<times> client_state" where
  "get_groups handle_error srv now r cs =
     (let fail = (\<lambda>e cs'. case handle_failure handle_error now r ''get_groups'' e of
                            (e', r') \<Rightarrow> (Inl e', r', cs'))
      in case cache_get now r ''groups'' [] of
           Inl e \<Rightarrow> fail e cs
         | Inr (Some (Json_groups cached)) \<Rightarrow> (Inr cached, r, cs)
         | Inr (Some _) \<Rightarrow> fail Validation_error cs
         | Inr None \<Rightarrow>
             (case client_list srv now cs ''group'' group_fields [] 1000 of
                (Inl e, cs') \<Rightarrow> fail e cs'
              | (Inr data, cs') \<Rightarrow>
                  (case parse_all as_group data of
                     Inl e \<Rightarrow> fail e cs'
                   | Inr groups \<Rightarrow>
                       (case cache_set now r ''groups'' (Json_groups groups) [] of
                          Inl e \<Rightarrow> fail e cs'
                        | Inr r' \<Rightarrow> (Inr groups, r', cs')))))"

definition client_fields :: "string list" where
  "client_fields = [''id'', ''name'', ''phone'', ''email'', ''informer_id'']"

definition j_opt_str :: "ustr option \<Rightarrow> jvalue" where
  "j_opt_str x = (case x of None \<Rightarrow> J_null | Some s \<Rightarrow> J_str s)"

definition find_client ::
  "error_handler \<Rightarrow> server \<Rightarrow> time \<Rightarrow> redis \<Rightarrow> client_state \<Rightarrow> ustr option \<Rightarrow>
   (exn + client option) \<times> redis \<times> client_state" where
  "find_client handle_error srv now r cs phone =
     (let fail = (\<lambda>e cs'. case handle_failure handle_error now r ''find_client'' e of
                            (e', r') \<Rightarrow> (Inl e', r', cs'))
      in case client_list srv now cs ''client'' client_fields [(''phone'', j_opt_str phone)] 1 of
           (Inl e, cs') \<Rightarrow> fail e cs'
         | (Inr [], cs') \<Rightarrow> (Inr None, r, cs')
         | (Inr (x # _), cs') \<Rightarrow>
             (case as_client x of
                Inl e \<Rightarrow> fail e cs'
              | Inr c \<Rightarrow> (Inr (Some c), r, cs')))"

definition create_client ::
  "error_handler \<Rightarrow> server \<Rightarrow> time \<Rightarrow> redis \<Rightarrow> client_state \<Rightarrow> ustr \<Rightarrow> ustr option \<Rightarrow>
   (exn + client) \<times> redis \<times> client_state" where
  "create_client handle_error srv now r cs name phone =
     (let fail = (\<lambda>e cs'. case handle_failure handle_error now r ''create_client'' e of
                            (e', r') \<Rightarrow> (Inl e', r', cs'))
      in case client_create srv now cs ''client''
                [(''name'', J_str name), (''phone'', j_opt_str phone)] of
           (Inl e, cs') \<Rightarrow> fail e cs'
         | (Inr result, cs') \<Rightarrow>
             (case parse_object as_client result of
                Inl e \<Rightarrow> fail e cs'
              | Inr c \<Rightarrow> (Inr c, r, cs')))"

text \<open>
  A schedule identifier is the \<open>int\<close> of a schedule entry or the \<open>str\<close> pinned in the
  slots.
\<close>

datatype sid = Sid_int int | Sid_str ustr

fun j_sid :: "sid \<Rightarrow> jvalue" where
  "j_sid (Sid_int n) = J_int n"
| "j_sid (Sid_str s) = J_str s"

text \<open>
  \<open>create_booking\<close>, as the booking flow calls it (no status, no notes). The cache is
  cleared as soon as the CRM has answered, before the answer is validated.
\<close>

definition create_booking ::
  "error_handler \<Rightarrow> server \<Rightarrow> time \<Rightarrow> redis \<Rightarrow> client_state \<Rightarrow> int \<Rightarrow> sid \<Rightarrow>
   (exn + reservation) \<times> redis \<times> client_state" where
  "create_booking handle_error srv now r cs client_id schedule_ident =
     (case client_create srv now cs ''reservation''
             [(''client_id'', J_int client_id), (''schedule_id'', j_sid schedule_ident)] of
        (Inl e, cs') \<Rightarrow>
          (case handle_failure handle_error now r ''create_booking'' e of
             (e', r') \<Rightarrow> (Inl e', r', cs'))
      | (Inr result, cs') \<Rightarrow>
          (let r1 = clear_entity r ''schedule'' in
           case parse_object as_reservation result of
             Inl e \<Rightarrow>
               (case handle_failure handle_error now r1 ''create_booking'' e of
                  (e', r') \<Rightarrow> (Inl e', r', cs'))
           | Inr reservation \<Rightarrow> (Inr reservation, r1, cs')))"

section \<open>The idempotency guard (app/core/idempotency.py)\<close>

text \<open>
  \<open>hashlib.sha256(text.encode()).hexdigest()\<close> is a parameter: a function from a text
  to the 64 hexadecimal digits of its hash.
\<close>

type_synonym hasher = "ustr \<Rightarrow> string"

fun str_sid :: "sid \<Rightarrow> ustr" where
  "str_sid (Sid_int n) = ascii (str_int n)"
| "str_sid (Sid_str s) = s"

definition compute_fingerprint :: "hasher \<Rightarrow> ustr \<Rightarrow> sid \<Rightarrow> string" where
  "compute_fingerprint sha256_hex phone sched = sha256_hex (phone @ str_sid sched)"

definition get_idempotency_key :: "string \<Rightarrow> string" where
  "get_idempotency_key fingerprint = ''idempotency:'' @ fingerprint"

text \<open>The message for a booking that is already there, as code points.\<close>

definition already_booked_message :: ustr where
  "already_booked_message =
     [1042, 1099, 32, 1091, 1078, 1077, 32, 1079, 1072, 1087, 1080, 1089, 1072, 1085, 1099, 32,
      1085, 1072, 32, 1101, 1090, 1086, 32, 1079, 1072, 1085, 1103, 1090, 1080, 1077, 32, 9989]"

definition acquire_booking_lock ::
  "hasher \<Rightarrow> time \<Rightarrow> redis \<Rightarrow> ustr \<Rightarrow> sid \<Rightarrow> (exn + bool \<times> ustr) \<times> redis" where
  "acquire_booking_lock sha256_hex now r phone sched =
     (let fingerprint = compute_fingerprint sha256_hex phone sched;
          key = get_idempotency_key fingerprint
      in case redis_setnx now r key (Int_str 1) 600 of
           (Inl e, r') \<Rightarrow> (Inl e, r')
         | (Inr is_new, r') \<Rightarrow>
             if is_new then (Inr (True, []), r')
             else (Inr (False, already_booked_message), r'))"

definition release_booking_lock :: "hasher \<Rightarrow> redis \<Rightarrow> ustr \<Rightarrow> sid \<Rightarrow> redis" where
  "release_booking_lock sha256_hex r phone sched =
     redis_delete r (get_idempotency_key (compute_fingerprint sha256_hex phone sched))"


section \<open>Confirming a booking (app/core/booking_flow.py)\<close>

text \<open>The other messages of \<open>confirm_booking\<close>, as code points.\<close>

definition slots_incomplete_message :: ustr where
  "slots_incomplete_message =
     [1053, 1077, 32, 1074, 1089, 1077, 32, 1076, 1072, 1085, 1085, 1099, 1077, 32, 1079, 1072,
      1087, 1086, 1083, 1085, 1077, 1085, 1099, 46, 32, 1055, 1086, 1078, 1072, 1083, 1091,
      1081, 1089, 1090, 1072, 44, 32, 1091, 1082, 1072, 1078, 1080, 1090, 1077, 32, 1085, 1072,
      1087, 1088, 1072, 1074, 1083, 1077, 1085, 1080, 1077, 32, 1080, 32, 1076, 1072, 1090,
      1091, 46]"

definition datetime_unknown_message :: ustr where
  "datetime_unknown_message =
     [1053, 1077, 32, 1091, 1076, 1072, 1083, 1086, 1089, 1100, 32, 1086, 1087, 1088, 1077,
      1076, 1077, 1083, 1080, 1090, 1100, 32, 1076, 1072, 1090, 1091, 32, 1080, 32, 1074, 1088,
      1077, 1084, 1103, 46, 32, 1055, 1086, 1078, 1072, 1083, 1091, 1081, 1089, 1090, 1072, 44,
      32, 1091, 1090, 1086, 1095, 1085, 1080, 1090, 1077, 46]"

definition no_suitable_class_message :: ustr where
  "no_suitable_class_message =
     [1053, 1077, 32, 1091, 1076, 1072, 1083, 1086, 1089, 1100, 32, 1085, 1072, 1081, 1090,
      1080, 32, 1087, 1086, 1076, 1093, 1086, 1076, 1103, 1097, 1077, 1077, 32, 1079, 1072,
      1085, 1103, 1090, 1080, 1077, 46, 32, 1054, 1073, 1088, 1072, 1090, 1080, 1090, 1077,
      1089, 1100, 32, 1082, 32, 1072, 1076, 1084, 1080, 1085, 1080, 1089, 1090, 1088, 1072,
      1090, 1086, 1088, 1091, 46]"

definition generic_failure_message :: ustr where
  "generic_failure_message =
     [1055, 1088, 1086, 1080, 1079, 1086, 1096, 1083, 1072, 32, 1086, 1096, 1080, 1073, 1082,
      1072, 32, 1087, 1088, 1080, 32, 1089, 1086, 1079, 1076, 1072, 1085, 1080, 1080, 32, 1079,
      1072, 1087, 1080, 1089, 1080, 46, 32, 1047, 1072, 1087, 1080, 1089, 1072, 1083, 32, 1079,
      1072, 1103, 1074, 1082, 1091, 32, 8212, 32, 1072, 1076, 1084, 1080, 1085, 1080, 1089,
      1090, 1088, 1072, 1090, 1086, 1088, 32, 1087, 1086, 1076, 1090, 1074, 1077, 1088, 1076,
      1080, 1090, 46]"

definition default_client_name :: ustr where
  "default_client_name =
     [1050, 1083, 1080, 1077, 1085, 1090]"

text \<open>
  What \<open>confirm_booking\<close> works with: the settings, the error mapping of the adapter,
  the CRM, \<open>str.lower\<close>, the hash and the studio address of the knowledge base. Writing
  the audit log is left out.
\<close>

record env =
  env_settings :: settings
  env_handle_error :: error_handler
  env_server :: server
  env_lower :: "ustr \<Rightarrow> ustr"
  env_sha256_hex :: hasher
  env_studio_address :: ustr

text \<open>The truth value of an optional \<open>str\<close> and of an optional \<open>int\<close>.\<close>

definition truthy_str :: "ustr option \<Rightarrow> bool" where
  "truthy_str x = (case x of None \<Rightarrow> False | Some s \<Rightarrow> s \<noteq> [])"

definition truthy_int :: "int option \<Rightarrow> bool" where
  "truthy_int x = (case x of None \<Rightarrow> False | Some n \<Rightarrow> n \<noteq> 0)"

text \<open>Lines 380 to 388: the client is looked up by phone and created when there is none.\<close>

definition find_or_create_client ::
  "env \<Rightarrow> time \<Rightarrow> session \<Rightarrow> redis \<Rightarrow> client_state \<Rightarrow> (exn + client) \<times> redis \<times> client_state" where
  "find_or_create_client ev now s r cs =
     (case find_client (env_handle_error ev) (env_server ev) now r cs (client_phone (slots s)) of
        (Inl e, r1, cs1) \<Rightarrow> (Inl e, r1, cs1)
      | (Inr (Some c), r1, cs1) \<Rightarrow> (Inr c, r1, cs1)
      | (Inr None, r1, cs1) \<Rightarrow>
          create_client (env_handle_error ev) (env_server ev) now r1 cs1
            (if truthy_str (client_name (slots s)) then the (client_name (slots s))
             else default_client_name)
            (client_phone (slots s)))"

text \<open>The two loops: the first group of that name, the first schedule entry that fits.\<close>

fun find_group_id :: "(ustr \<Rightarrow> ustr) \<Rightarrow> ustr \<Rightarrow> group_rec list \<Rightarrow> int option" where
  "find_group_id lower group_name_lower [] = None"
| "find_group_id lower group_name_lower (g # gs) =
     (if lower (gr_name g) = group_name_lower then Some (gr_id g)
      else find_group_id lower group_name_lower gs)"

definition schedule_fits :: "string \<Rightarrow> string \<Rightarrow> int option \<Rightarrow> schedule \<Rightarrow> bool" where
  "schedule_fits target_date target_time group_id x =
     (sched_date x = target_date \<and> sched_time x = target_time \<and>
      (\<not> truthy_int group_id \<or> sched_group_id x = group_id))"

fun find_schedule :: "string \<Rightarrow> string \<Rightarrow> int option \<Rightarrow> schedule list \<Rightarrow> int option" where
  "find_schedule target_date target_time group_id [] = None"
| "find_schedule target_date target_time group_id (x # xs) =
     (if schedule_fits target_date target_time group_id x then Some (sched_id x)
      else find_schedule target_date target_time group_id xs)"

definition date_of :: "datetime \<Rightarrow> pydate" where
  "date_of d = \<lparr>pd_year = dt_year d, pd_month = dt_month d, pd_day = dt_day d\<rparr>"

text \<open>
  Lines 391 to 423: the schedule identifier. The result is an exception, a message with
  which \<open>confirm_booking\<close> returns at once, or the identifier.
\<close>

definition resolve_schedule_id ::
  "env \<Rightarrow> time \<Rightarrow> session \<Rightarrow> redis \<Rightarrow> client_state \<Rightarrow>
   (exn + ustr + sid) \<times> redis \<times> client_state" where
  "resolve_schedule_id ev now s r cs =
     (if truthy_str (schedule_id (slots s))
      then (Inr (Inr (Sid_str (the (schedule_id (slots s))))), r, cs)
      else
        (case datetime_resolved (slots s) of
           None \<Rightarrow> (Inr (Inl datetime_unknown_message), r, cs)
         | Some dt \<Rightarrow>
             (case (if truthy_str (group (slots s))
                    then (case get_groups (env_handle_error ev) (env_server ev) now r cs of
                            (Inl e, r1, cs1) \<Rightarrow> (Inl e, r1, cs1)
                          | (Inr groups, r1, cs1) \<Rightarrow>
                              (Inr (find_group_id (env_lower ev)
                                      (env_lower ev (the (group (slots s)))) groups), r1, cs1))
                    else (Inr None, r, cs)) of
                (Inl e, r1, cs1) \<Rightarrow> (Inl e, r1, cs1)
              | (Inr group_id, r1, cs1) \<Rightarrow>
                  (case get_schedule (env_handle_error ev) (env_server ev) now r1 cs1
                          (Some (date_of dt)) None None of
                     (Inl e, r2, cs2) \<Rightarrow> (Inl e, r2, cs2)
                   | (Inr schedules, r2, cs2) \<Rightarrow>
                       (case find_schedule (date_isoformat dt) (time_hm dt) group_id schedules of
                          None \<Rightarrow> (Inr (Inl no_suitable_class_message), r2, cs2)
                        | Some n \<Rightarrow>
                            if n \<noteq> 0 then (Inr (Inr (Sid_int n)), r2, cs2)
                            else (Inr (Inl no_suitable_class_message), r2, cs2))))))"

text \<open>
  \<open>str(e)\<close> in the handler for \<open>RuntimeError\<close>, and the fixed message of the handler
  for every other exception.
\<close>

fun failure_message :: "exn \<Rightarrow> ustr" where
  "failure_message (Runtime_error m) = m"
| "failure_message _ = generic_failure_message"

text \<open>The f-string of the fingerprint renders a missing phone as \<open>None\<close>.\<close>

definition lock_phone :: "session \<Rightarrow> ustr" where
  "lock_phone s = (case client_phone (slots s) of None \<Rightarrow> ascii ''None'' | Some p \<Rightarrow> p)"

text \<open>Lines 434 to 464, the body of the inner \<open>try\<close>.\<close>

definition create_and_receipt ::
  "env \<Rightarrow> time \<Rightarrow> session \<Rightarrow> redis \<Rightarrow> client_state \<Rightarrow> client \<Rightarrow> sid \<Rightarrow>
   (exn + ustr) \<times> session \<times> redis \<times> client_state" where
  "create_and_receipt ev now s r cs cl sched =
     (case create_booking (env_handle_error ev) (env_server ev) now r cs (cl_id cl) sched of
        (Inl e, r1, cs1) \<Rightarrow> (Inl e, s, r1, cs1)
      | (Inr reservation, r1, cs1) \<Rightarrow>
          (case transition_state (env_settings ev) now s BOOKING_DONE r1 of
             (Inl e, s1, r2) \<Rightarrow> (Inl e, s1, r2, cs1)
           | (Inr success, s1, r2) \<Rightarrow>
               (Inr (generate_booking_receipt (env_studio_address ev) reservation cl (slots s1)),
                s1, r2, cs1)))"

text \<open>Lines 425 to 505: the lock, the booking, and the two inner handlers.\<close>

definition commit_booking ::
  "env \<Rightarrow> time \<Rightarrow> session \<Rightarrow> redis \<Rightarrow> client_state \<Rightarrow> client \<Rightarrow> sid \<Rightarrow>
   (exn + ustr) \<times> session \<times> redis \<times> client_state" where
  "commit_booking ev now s r cs cl sched =
     (case acquire_booking_lock (env_sha256_hex ev) now r (lock_phone s) sched of
        (Inl e, r1) \<Rightarrow> (Inl e, s, r1, cs)
      | (Inr (is_new, idempotency_msg), r1) \<Rightarrow>
          if \<not> is_new
          then (case transition_state (env_settings ev) now s IDLE r1 of
                  (Inl e, s1, r2) \<Rightarrow> (Inl e, s1, r2, cs)
                | (Inr success, s1, r2) \<Rightarrow> (Inr idempotency_msg, s1, r2, cs))
          else
            (case create_and_receipt ev now s r1 cs cl sched of
               (Inr receipt, s1, r2, cs1) \<Rightarrow> (Inr receipt, s1, r2, cs1)
             | (Inl e, s1, r2, cs1) \<Rightarrow>
                 (let r3 = release_booking_lock (env_sha256_hex ev) r2 (lock_phone s) sched
                  in case transition_state (env_settings ev) now s1 IDLE r3 of
                       (Inl e', s2, r4) \<Rightarrow> (Inl e', s2, r4, cs1)
                     | (Inr success, s2, r4) \<Rightarrow> (Inr (failure_message e), s2, r4, cs1))))"

text \<open>Lines 380 to 505, the body of the outer \<open>try\<close>.\<close>

definition booking_attempt ::
  "env \<Rightarrow> time \<Rightarrow> session \<Rightarrow> redis \<Rightarrow> client_state \<Rightarrow>
   (exn + ustr) \<times> session \<times> redis \<times> client_state" where
  "booking_attempt ev now s r cs =
     (case find_or_create_client ev now s r cs of
        (Inl e, r1, cs1) \<Rightarrow> (Inl e, s, r1, cs1)
      | (Inr cl, r1, cs1) \<Rightarrow>
          (case resolve_schedule_id ev now s r1 cs1 of
             (Inl e, r2, cs2) \<Rightarrow> (Inl e, s, r2, cs2)
           | (Inr (Inl msg), r2, cs2) \<Rightarrow> (Inr msg, s, r2, cs2)
           | (Inr (Inr sched), r2, cs2) \<Rightarrow> commit_booking ev now s r2 cs2 cl sched))"

text \<open>
  \<open>confirm_booking\<close>. The whole call reads the clock once. An exception of the first
  transition is outside the \<open>try\<close> and leaves the function; one raised in a handler
  leaves it too.
\<close>

definition confirm_booking ::
  "env \<Rightarrow> time \<Rightarrow> session \<Rightarrow> redis \<Rightarrow> client_state \<Rightarrow>
   (exn + ustr) \<times> session \<times> redis \<times> client_state" where
  "confirm_booking ev now s r cs =
     (if \<not> truthy_str (group (slots s)) \<or> datetime_resolved (slots s) = None
      then (Inr slots_incomplete_message, s, r, cs)
      else
        (case transition_state (env_settings ev) now s BOOKING_IN_PROGRESS r of
           (Inl e, s1, r1) \<Rightarrow> (Inl e, s1, r1, cs)
         | (Inr moved, s1, r1) \<Rightarrow>
             (case booking_attempt ev now s1 r1 cs of
                (Inr msg, s2, r2, cs2) \<Rightarrow> (Inr msg, s2, r2, cs2)
              | (Inl e, s2, r2, cs2) \<Rightarrow>
                  (case transition_state (env_settings ev) now s2 IDLE r2 of
                     (Inl e', s3, r3) \<Rightarrow> (Inl e', s3, r3, cs2)
                   | (Inr success, s3, r3) \<Rightarrow> (Inr (failure_message e), s3, r3, cs2)))))"

section \<open>Values used to state and to instantiate the properties\<close>

text \<open>
  A bucket holds \<open>n\<close> when its key has the rendering of \<open>n\<close>, or when the key is
  not there and \<open>n\<close> is 0.
\<close>

definition bucket_holds :: "time \<Rightarrow> redis \<Rightarrow> string \<Rightarrow> int \<Rightarrow> bool" where
  "bucket_holds now r key n =
     (redis_get now r key = Some (Int_str n) \<or> (redis_get now r key = None \<and> n = 0))"

definition example_slots :: slot_values where
  "example_slots =
     \<lparr>group = None, datetime_raw = None, datetime_resolved = None, client_name = None,
      client_phone = None, schedule_id = None, messages = []\<rparr>"

definition example_session :: "conversation_state \<Rightarrow> slot_values \<Rightarrow> session" where
  "example_session st sl =
     \<lparr>trace_id = ''6f1c'', channel = ''telegram'', chat_id = ''42'', state = st, slots = sl,
      created_at = 0, updated_at = 0, expires_at = 86400\<rparr>"

definition default_settings :: settings where
  "default_settings =
     \<lparr>max_tokens_per_hour = 100000, max_cost_per_day_usd = 10, max_requests_per_minute = 30,
      max_errors_per_hour = 50, session_ttl_hours = 24\<rparr>"

definition example_utc :: datetime where
  "example_utc = \<lparr>dt_year = 2024, dt_month = 5, dt_day = 17, dt_hour = 10, dt_minute = 30,
     dt_second = 15\<rparr>"

definition counter_entry :: "int \<Rightarrow> time \<Rightarrow> redis_entry" where
  "counter_entry n t = \<lparr>entry_value = Int_str n, entry_expiry = Some t\<rparr>"

definition budget_store :: "int \<Rightarrow> int \<Rightarrow> int \<Rightarrow> redis" where
  "budget_store q t c =
     [get_minute_key example_utc \<mapsto> counter_entry q 1050,
      get_hour_key example_utc \<mapsto> counter_entry t 4000,
      get_day_key example_utc \<mapsto> counter_entry c 80000]"



definition long_text :: ustr where
  "long_text = replicate 100 97"

definition receipt_slots :: slot_values where
  "receipt_slots =
     \<lparr>group = Some long_text, datetime_raw = None,
      datetime_resolved = Some \<lparr>dt_year = 2024, dt_month = 5, dt_day = 18, dt_hour = 19,
        dt_minute = 0, dt_second = 0\<rparr>,
      client_name = Some (ascii ''Igor''), client_phone = Some (ascii ''89990001122''),
      schedule_id = None, messages = []\<rparr>"

definition receipt_client :: client where
  "receipt_client =
     \<lparr>cl_id = 3, cl_name = ascii ''Igor'', cl_phone = ascii ''89990001122'', cl_email = None,
      cl_informer_id = None\<rparr>"

definition receipt_reservation :: reservation where
  "receipt_reservation =
     \<lparr>rs_id = 7, rs_client_id = 3, rs_schedule_id = 11, rs_status_id = None, rs_notes = None\<rparr>"

definition example_request :: request where
  "example_request =
     \<lparr>rq_method = ''POST'', rq_entity = ''schedule'', rq_action = ''list'',
      rq_data = [(''limit'', J_int 1000), (''page'', J_int 1)]\<rparr>"

definition client_with :: "circuit_breaker \<Rightarrow> client_state" where
  "client_with cb = \<lparr>breaker = cb, net_log = [], sleeps = []\<rparr>"

definition opened_breaker :: circuit_breaker where
  "opened_breaker = after_failures [0, 0, 0, 0, 0] new_circuit_breaker"

definition down_server :: server where
  "down_server history = Reply_timeout"


definition ok_server :: server where
  "ok_server history = Reply_ok 200 (Json_rows [])"

definition example_handle_error :: error_handler where
  "example_handle_error e = (ascii ''CRM error'', True)"

definition example_date :: pydate where
  "example_date = \<lparr>pd_year = 2024, pd_month = 5, pd_day = 18\<rparr>"

definition example_schedule :: schedule where
  "example_schedule =
     \<lparr>sched_id = 11, sched_group_id = Some 4, sched_teacher_id = None, sched_hall_id = None,
      sched_date = ''2024-05-18'', sched_time = ''19:00'', sched_duration_minutes = Some 60,
      sched_max_students = Some 12, sched_current_students = Some 5,
      sched_is_active = Some True\<rparr>"

definition example_group :: group_rec where
  "example_group =
     \<lparr>gr_id = 4, gr_name = ascii ''Hip-hop'', gr_style_id = None, gr_teacher_id = None,
      gr_description = None, gr_is_active = Some True\<rparr>"

definition crm_server :: server where
  "crm_server history =
     (if rq_entity (last history) = ''schedule''
      then Reply_ok 200 (Json_rows [Schedule_row example_schedule])
      else if rq_entity (last history) = ''group''
      then Reply_ok 200 (Json_rows [Group_row example_group])
      else if rq_entity (last history) = ''client''
      then Reply_ok 200 (Json_rows [Client_row receipt_client])
      else if rq_entity (last history) = ''reservation''
      then Reply_ok 200 (Json_object (Reservation_row receipt_reservation))
      else Reply_status 404)"

definition first_fetch :: "(exn + schedule list) \<times> redis \<times> client_state" where
  "first_fetch =
     get_schedule example_handle_error crm_server 1000 Map.empty
       (client_with new_circuit_breaker) (Some example_date) None None"

definition after_booking :: "(exn + reservation) \<times> redis \<times> client_state" where
  "after_booking =
     create_booking example_handle_error crm_server 1600 (fst (snd first_fetch))
       (snd (snd first_fetch)) 3 (Sid_int 11)"

definition example_sha256_hex :: hasher where
  "example_sha256_hex text = concat (map str_nat text)"

definition ascii_lower :: "ustr \<Rightarrow> ustr" where
  "ascii_lower text = map (\<lambda>c. if 65 \<le> c \<and> c \<le> 90 then c + 32 else c) text"

definition example_env :: env where
  "example_env =
     \<lparr>env_settings = default_settings, env_handle_error = example_handle_error,
      env_server = crm_server, env_lower = ascii_lower, env_sha256_hex = example_sha256_hex,
      env_studio_address = ascii ''Lenina 1''\<rparr>"

definition booking_slots :: slot_values where
  "booking_slots =
     \<lparr>group = Some (ascii ''Hip-Hop''), datetime_raw = None,
      datetime_resolved = Some \<lparr>dt_year = 2024, dt_month = 5, dt_day = 19, dt_hour = 19,
        dt_minute = 0, dt_second = 0\<rparr>,
      client_name = Some (ascii ''Igor''), client_phone = Some (ascii ''89990001122''),
      schedule_id = None, messages = []\<rparr>"

definition example_lock_key :: string where
  "example_lock_key =
     get_idempotency_key
       (compute_fingerprint example_sha256_hex (ascii ''89990001122'') (Sid_int 11))"

definition locked_store :: redis where
  "locked_store =
     [example_lock_key \<mapsto> \<lparr>entry_value = Int_str 1, entry_expiry = Some 1600\<rparr>]"

definition unmatched_confirm :: "(exn + ustr) \<times> session \<times> redis \<times> client_state" where
  "unmatched_confirm =
     confirm_booking example_env 1000 (example_session CONFIRM_BOOKING booking_slots)
       locked_store (client_with new_circuit_breaker)"

section \<open>Properties of the state machine\<close>

lemma can_transition_spec_table:
  "can_transition S T = (T \<in> spec_transition_table S)"
  by (cases S) (simp_all add: can_transition_def)

text \<open>
  C7. For every pair of states \<open>(S, T)\<close>, \<open>can_transition S T\<close> is true exactly when
  \<open>T\<close> is in the set the specification's transition table lists for \<open>S\<close>;
  \<open>transition_state\<close> on a pair that is not allowed returns false and leaves the session
  (its state included) and the store as they were; \<open>is_terminal_state\<close> is true for
  \<open>BOOKING_DONE\<close> only.
\<close>

theorem fsm_closure:
  "(\<forall>S T. can_transition S T = (T \<in> spec_transition_table S)) \<and>
   (\<forall>cfg now s T r. \<not> can_transition (state s) T \<longrightarrow>
      transition_state cfg now s T r = (Inr False, s, r) \<and>
      state (fst (snd (transition_state cfg now s T r))) = state s) \<and>
   (\<forall>S. is_terminal_state S = (S = BOOKING_DONE))"
  by (simp add: can_transition_spec_table transition_state_def is_terminal_state_def)

text \<open>C7 on the pair idle, booking-done, which the table does not list.\<close>

theorem fsm_closure_witness:
  "can_transition IDLE COLLECTING_INTENT \<and>
   \<not> can_transition (state (example_session IDLE example_slots)) BOOKING_DONE \<and>
   transition_state default_settings 1000 (example_session IDLE example_slots) BOOKING_DONE
     Map.empty = (Inr False, example_session IDLE example_slots, Map.empty) \<and>
   state (fst (snd (transition_state default_settings 1000 (example_session IDLE example_slots)
     BOOKING_DONE Map.empty))) = IDLE \<and>
   is_terminal_state BOOKING_DONE \<and> \<not> is_terminal_state IDLE"
proof -
  have n: "\<not> can_transition (state (example_session IDLE example_slots)) BOOKING_DONE"
    using fsm_closure by (simp add: example_session_def)
  from fsm_closure n have
    "transition_state default_settings 1000 (example_session IDLE example_slots) BOOKING_DONE
       Map.empty = (Inr False, example_session IDLE example_slots, Map.empty)"
    by blast
  with n show ?thesis using fsm_closure by (simp add: example_session_def)
qed

section \<open>Properties of the budget guard\<close>

lemma bucket_holds_read: "bucket_holds now r key n \<Longrightarrow> read_count (redis_get now r key) = Inr n"
  by (auto simp: bucket_holds_def)

lemma redis_get_expire:
  "0 < secs \<Longrightarrow> redis_get now (redis_expire now r k secs) k' = redis_get now r k'"
  by (auto simp: redis_get_def redis_expire_def live_def split: option.splits)


lemma bucket_holds_expire:
  "0 < secs \<Longrightarrow> bucket_holds now (redis_expire now r k secs) k' n = bucket_holds now r k' n"
  by (simp add: bucket_holds_def redis_get_expire)

lemma redis_incr_ok:
  assumes "bucket_holds now r key n" "int64_ok amount" "int64_ok (n + amount)"
  shows "fst (redis_incr now r key amount) = Inr (n + amount)"
    and "redis_get now (snd (redis_incr now r key amount)) key = Some (Int_str (n + amount))"
    and "k' \<noteq> key \<Longrightarrow> redis_get now (snd (redis_incr now r key amount)) k' = redis_get now r k'"
  using assms
  by (auto simp: bucket_holds_def redis_get_def redis_incr_def live_def
      split: option.splits if_splits redis_value.splits)

lemma redis_incr_cases:
  "(\<exists>e. redis_incr now r key amount = (Inl e, r)) \<or>
   (\<exists>n r'. redis_incr now r key amount = (Inr n, r'))"
  by (auto simp: redis_incr_def split: option.splits redis_value.splits)

lemma budget_key_distinct:
  "get_minute_key u \<noteq> get_hour_key u'" "get_minute_key u \<noteq> get_day_key u'"
  "get_hour_key u \<noteq> get_day_key u'" "get_hour_key u \<noteq> get_minute_key u'"
  "get_day_key u \<noteq> get_hour_key u'" "get_day_key u \<noteq> get_minute_key u'"
  "get_errors_hour_key u \<noteq> get_hour_key u'" "get_errors_hour_key u \<noteq> get_minute_key u'"
  "get_errors_hour_key u \<noteq> get_day_key u'"
  "get_hour_key u \<noteq> get_errors_hour_key u'" "get_minute_key u \<noteq> get_errors_hour_key u'"
  "get_day_key u \<noteq> get_errors_hour_key u'"
  by (simp_all add: get_minute_key_def get_hour_key_def get_day_key_def get_errors_hour_key_def)



lemma tokens_reject:
  assumes "bucket_holds now r (get_hour_key utc) t" "t + tokens > max_tokens_per_hour cfg"
  shows "check_tokens_per_hour cfg now utc tokens r =
           (Inr (False, t), redis_expire now r (get_hour_key utc) 3600)"
  using assms by (simp add: check_tokens_per_hour_def bucket_holds_read)

lemma tokens_accept:
  assumes "bucket_holds now r (get_hour_key utc) t" "\<not> t + tokens > max_tokens_per_hour cfg"
    "int64_ok tokens" "int64_ok (t + tokens)"
  shows "check_tokens_per_hour cfg now utc tokens r =
           (Inr (True, t + tokens),
            redis_expire now (snd (redis_incr now r (get_hour_key utc) tokens)) (get_hour_key utc) 3600)"
proof -
  from assms redis_incr_ok(1)[of now r "get_hour_key utc" t tokens]
  have "fst (redis_incr now r (get_hour_key utc) tokens) = Inr (t + tokens)" by simp
  then show ?thesis using assms
    by (cases "redis_incr now r (get_hour_key utc) tokens")
       (simp add: check_tokens_per_hour_def bucket_holds_read)
qed




lemma bucket_holds_incr_same:
  assumes "bucket_holds now r key n" "int64_ok amount" "int64_ok (n + amount)"
  shows "redis_get now (snd (redis_incr now r key amount)) key = Some (Int_str (n + amount))"
  using redis_incr_ok(2)[OF assms] .


lemma tokens_reject_iff:
  assumes "read_count (redis_get now r (get_hour_key utc)) = Inr current"
  shows "(\<exists>v. fst (check_tokens_per_hour cfg now utc tokens r) = Inr (False, v)) \<longleftrightarrow>
         current + tokens > max_tokens_per_hour cfg"
  using assms redis_incr_cases[of now r "get_hour_key utc" tokens]
  by (auto simp: check_tokens_per_hour_def Let_def split: if_splits)



lemma live_expire_same:
  "live now r k = Some e \<Longrightarrow> 0 < secs \<Longrightarrow>
   live now (redis_expire now r k secs) k = Some (e\<lparr>entry_expiry := Some (now + secs)\<rparr>)"
  by (auto simp: redis_expire_def live_def split: option.splits)

lemma live_incr_expire:
  assumes "bucket_holds now r key n" "int64_ok amount" "int64_ok (n + amount)" "0 < secs"
  shows "live now (redis_expire now (snd (redis_incr now r key amount)) key secs) key =
         Some \<lparr>entry_value = Int_str (n + amount), entry_expiry = Some (now + secs)\<rparr>"
  using assms
  by (auto simp: bucket_holds_def redis_get_def redis_incr_def redis_expire_def live_def
      split: option.splits if_splits redis_value.splits)

text \<open>
  C5. With a limit of 100000 tokens per hour and the hour's bucket at 99999, a request for
  2 tokens is refused and the bucket stays at 99999 (its expiry is set again, nothing is
  added), and a request for 1 token is accepted and the bucket becomes exactly 100000. In
  general \<open>check_tokens_per_hour\<close> refuses exactly when \<open>current + tokens\<close> is
  strictly above the limit; then it returns the current value and only sets the expiry
  again; otherwise it adds the amount and sets the expiry to one hour.
\<close>

theorem budget_boundary:
  assumes h: "bucket_holds now r (get_hour_key utc) current"
  shows
   "((\<exists>v. fst (check_tokens_per_hour cfg now utc tokens r) = Inr (False, v)) \<longleftrightarrow>
       current + tokens > max_tokens_per_hour cfg) \<and>
    (current + tokens > max_tokens_per_hour cfg \<longrightarrow>
       fst (check_tokens_per_hour cfg now utc tokens r) = Inr (False, current) \<and>
       bucket_holds now (snd (check_tokens_per_hour cfg now utc tokens r)) (get_hour_key utc) current \<and>
       (\<forall>e. live now r (get_hour_key utc) = Some e \<longrightarrow>
          live now (snd (check_tokens_per_hour cfg now utc tokens r)) (get_hour_key utc) =
            Some (e\<lparr>entry_expiry := Some (now + 3600)\<rparr>))) \<and>
    (current + tokens \<le> max_tokens_per_hour cfg \<and> int64_ok tokens \<and> int64_ok (current + tokens) \<longrightarrow>
       fst (check_tokens_per_hour cfg now utc tokens r) = Inr (True, current + tokens) \<and>
       live now (snd (check_tokens_per_hour cfg now utc tokens r)) (get_hour_key utc) =
         Some \<lparr>entry_value = Int_str (current + tokens), entry_expiry = Some (now + 3600)\<rparr>) \<and>
    (max_tokens_per_hour cfg = 100000 \<and> current = 99999 \<longrightarrow>
       fst (check_tokens_per_hour cfg now utc 2 r) = Inr (False, 99999) \<and>
       redis_get now (snd (check_tokens_per_hour cfg now utc 2 r)) (get_hour_key utc) =
         Some (Int_str 99999) \<and>
       fst (check_tokens_per_hour cfg now utc 1 r) = Inr (True, 100000) \<and>
       redis_get now (snd (check_tokens_per_hour cfg now utc 1 r)) (get_hour_key utc) =
         Some (Int_str 100000))"
proof (intro conjI impI)
  show "(\<exists>v. fst (check_tokens_per_hour cfg now utc tokens r) = Inr (False, v)) \<longleftrightarrow>
       current + tokens > max_tokens_per_hour cfg"
    by (rule tokens_reject_iff[OF bucket_holds_read[OF h]])
next
  assume a: "current + tokens > max_tokens_per_hour cfg"
  show "fst (check_tokens_per_hour cfg now utc tokens r) = Inr (False, current)"
    by (simp add: tokens_reject[OF h a])
  show "bucket_holds now (snd (check_tokens_per_hour cfg now utc tokens r)) (get_hour_key utc) current"
    using h by (simp add: tokens_reject[OF h a] bucket_holds_expire)
  show "\<forall>e. live now r (get_hour_key utc) = Some e \<longrightarrow>
          live now (snd (check_tokens_per_hour cfg now utc tokens r)) (get_hour_key utc) =
            Some (e\<lparr>entry_expiry := Some (now + 3600)\<rparr>)"
    by (simp add: tokens_reject[OF h a] live_expire_same)
next
  assume a: "current + tokens \<le> max_tokens_per_hour cfg \<and> int64_ok tokens \<and> int64_ok (current + tokens)"
  then have n: "\<not> current + tokens > max_tokens_per_hour cfg" by simp
  from a have i1: "int64_ok tokens" and i2: "int64_ok (current + tokens)" by simp_all
  show "fst (check_tokens_per_hour cfg now utc tokens r) = Inr (True, current + tokens)"
    by (simp add: tokens_accept[OF h n i1 i2])
  show "live now (snd (check_tokens_per_hour cfg now utc tokens r)) (get_hour_key utc) =
         Some \<lparr>entry_value = Int_str (current + tokens), entry_expiry = Some (now + 3600)\<rparr>"
    by (simp add: tokens_accept[OF h n i1 i2] live_incr_expire[OF h i1 i2])
next
  assume a: "max_tokens_per_hour cfg = 100000 \<and> current = 99999"
  then have h': "bucket_holds now r (get_hour_key utc) 99999" using h by simp
  have rej: "(99999::int) + 2 > max_tokens_per_hour cfg" using a by simp
  have acc: "\<not> (99999::int) + 1 > max_tokens_per_hour cfg" using a by simp
  have i: "int64_ok 1" "int64_ok (99999 + 1)" by (simp_all add: int64_ok_def)
  have g: "redis_get now r (get_hour_key utc) = Some (Int_str 99999)"
    using h' by (simp add: bucket_holds_def)
  show "fst (check_tokens_per_hour cfg now utc 2 r) = Inr (False, 99999)"
    by (simp add: tokens_reject[OF h' rej])
  show "redis_get now (snd (check_tokens_per_hour cfg now utc 2 r)) (get_hour_key utc) =
         Some (Int_str 99999)"
    using g by (simp add: tokens_reject[OF h' rej] redis_get_expire)
  show "fst (check_tokens_per_hour cfg now utc 1 r) = Inr (True, 100000)"
    by (simp add: tokens_accept[OF h' acc i])
  show "redis_get now (snd (check_tokens_per_hour cfg now utc 1 r)) (get_hour_key utc) =
         Some (Int_str 100000)"
    using bucket_holds_incr_same[OF h' i]
    by (simp add: tokens_accept[OF h' acc i] redis_get_expire)
qed






lemma budget_store_holds:
  "bucket_holds 1000 (budget_store q t c) (get_minute_key example_utc) q"
  "bucket_holds 1000 (budget_store q t c) (get_hour_key example_utc) t"
  "bucket_holds 1000 (budget_store q t c) (get_day_key example_utc) c"
  by (simp_all add: bucket_holds_def budget_store_def redis_get_def live_def counter_entry_def
      budget_key_distinct)

text \<open>The boundary of C5 on a store whose hour bucket holds 99999.\<close>

theorem budget_boundary_witness:
  "bucket_holds 1000 (budget_store 0 99999 0) (get_hour_key example_utc) 99999 \<and>
   fst (check_tokens_per_hour default_settings 1000 example_utc 2 (budget_store 0 99999 0)) =
     Inr (False, 99999) \<and>
   redis_get 1000 (snd (check_tokens_per_hour default_settings 1000 example_utc 2
      (budget_store 0 99999 0))) (get_hour_key example_utc) = Some (Int_str 99999) \<and>
   live 1000 (snd (check_tokens_per_hour default_settings 1000 example_utc 2
      (budget_store 0 99999 0))) (get_hour_key example_utc) = Some (counter_entry 99999 4600) \<and>
   fst (check_tokens_per_hour default_settings 1000 example_utc 1 (budget_store 0 99999 0)) =
     Inr (True, 100000) \<and>
   live 1000 (snd (check_tokens_per_hour default_settings 1000 example_utc 1
      (budget_store 0 99999 0))) (get_hour_key example_utc) = Some (counter_entry 100000 4600)"
proof -
  have h: "bucket_holds 1000 (budget_store 0 99999 0) (get_hour_key example_utc) 99999"
    by (rule budget_store_holds)
  have l: "live 1000 (budget_store 0 99999 0) (get_hour_key example_utc) = Some (counter_entry 99999 4000)"
    by (simp add: budget_store_def live_def counter_entry_def budget_key_distinct)
  show ?thesis
    using h l budget_boundary[OF h, where cfg=default_settings and tokens=2] budget_boundary[OF h, where cfg=default_settings and tokens=1]
    by (simp add: default_settings_def int64_ok_def counter_entry_def)
qed



section \<open>Properties of the booking receipt\<close>

lemma replace_nonempty_prefix:
  "old \<noteq> [] \<Longrightarrow> replace_nonempty old new (old @ zs) = new @ replace_nonempty old new zs"
  by (cases old) simp_all

lemma replace_nonempty_no_prefix:
  "\<not> prefix old (c # cs) \<Longrightarrow> replace_nonempty old new (c # cs) = c # replace_nonempty old new cs"
  by simp

lemma length_replace_nonempty_le:
  "length new \<le> length old \<Longrightarrow> length (replace_nonempty old new s) \<le> length s"
proof (induction old new s rule: replace_nonempty.induct)
  case (1 old new)
  then show ?case by simp
next
  case (2 old new c cs)
  show ?case
  proof (cases "old \<noteq> [] \<and> prefix old (c # cs)")
    case True
    then obtain zs where zs: "c # cs = old @ zs" by (auto simp: prefix_def)
    then have d: "drop (length old) (c # cs) = zs" by simp
    have "length (replace_nonempty old new zs) \<le> length zs"
      using "2.IH"(1)[OF True "2.prems"] d by simp
    moreover have "replace_nonempty old new (c # cs) = new @ replace_nonempty old new zs"
      using True replace_nonempty_prefix[of old new zs] zs by simp
    moreover have "length (c # cs) = length old + length zs" using zs by (metis length_append)
    ultimately show ?thesis using "2.prems" by simp
  next
    case False
    then have "replace_nonempty old new (c # cs) = c # replace_nonempty old new cs" by auto
    with "2.IH"(2)[OF False "2.prems"] show ?thesis by simp
  qed
qed

lemma length_replace_nonempty_occurs:
  "old \<noteq> [] \<Longrightarrow> length new \<le> length old \<Longrightarrow> sublist old s \<Longrightarrow>
   length (replace_nonempty old new s) + (length old - length new) \<le> length s"
proof (induction old new s rule: replace_nonempty.induct)
  case (1 old new)
  then show ?case by simp
next
  case (2 old new c cs)
  show ?case
  proof (cases "prefix old (c # cs)")
    case True
    then obtain zs where zs: "c # cs = old @ zs" by (auto simp: prefix_def)
    have "length (replace_nonempty old new zs) \<le> length zs"
      using "2.prems"(2) by (rule length_replace_nonempty_le)
    moreover have "replace_nonempty old new (c # cs) = new @ replace_nonempty old new zs"
      using replace_nonempty_prefix[OF "2.prems"(1), of new zs] zs by simp
    moreover have "length (c # cs) = length old + length zs" using zs by (metis length_append)
    ultimately show ?thesis using "2.prems"(2) by simp
  next
    case False
    then have s: "sublist old cs" using "2.prems"(3) by (simp add: sublist_Cons_right)
    have "\<not> (old \<noteq> [] \<and> prefix old (c # cs))" using False by simp
    from "2.IH"(2)[OF this "2.prems"(1,2) s] replace_nonempty_no_prefix[OF False, of new]
    show ?thesis by simp
  qed
qed

lemma format_receipt_contains_address:
  "sublist address (format_receipt grp dts name phone address rid)"
  unfolding format_receipt_def
  by (metis append.assoc sublist_appendI)

lemma length_format_receipt:
  "length (format_receipt grp dts name phone address rid) =
     120 + length grp + length dts + length name + length phone + length address +
     length (str_int rid)"
  by (simp add: format_receipt_def receipt_head_def receipt_datetime_label_def
      receipt_name_label_def receipt_phone_label_def receipt_address_label_def
      receipt_number_label_def receipt_tail_def ascii_def)

lemma receipt_length_le_300:
  "length (generate_booking_receipt studio_address res cl sl) \<le> 300"
proof -
  define receipt where "receipt = format_receipt (receipt_group sl) (receipt_datetime_str sl)
    (cl_name cl) (cl_phone cl) studio_address (rs_id res)"
  define m where "m = 300 - (int (length receipt) - int (length studio_address)) - 3"
  have occ: "sublist studio_address receipt"
    unfolding receipt_def by (rule format_receipt_contains_address)
  then have le: "length studio_address \<le> length receipt"
    by (auto simp: sublist_def)
  show ?thesis
  proof (cases "length receipt > 300")
    case False
    then show ?thesis by (simp add: generate_booking_receipt_def Let_def receipt_def[symmetric])
  next
    case long: True
    show ?thesis
    proof (cases "m > 0")
      case False
      then show ?thesis using long
        by (simp add: generate_booking_receipt_def Let_def receipt_def[symmetric] m_def ellipsis_def)
    next
      case True
      define new where "new = take (nat m) studio_address @ ellipsis"
      have mlt: "nat m + 3 < length studio_address" using long True le by (simp add: m_def)
      then have ln: "length new = nat m + 3" by (simp add: new_def ellipsis_def)
      have ne: "studio_address \<noteq> []" using mlt by auto
      have "length (replace_nonempty studio_address new receipt) +
              (length studio_address - length new) \<le> length receipt"
        using ne ln mlt occ by (intro length_replace_nonempty_occurs) simp_all
      then have "length (replace_nonempty studio_address new receipt) \<le> 300"
        using ln mlt le True by (simp add: m_def)
      moreover have "generate_booking_receipt studio_address res cl sl =
          py_replace studio_address new receipt"
        using long True
        unfolding generate_booking_receipt_def Let_def receipt_def[symmetric] new_def m_def
        by simp
      ultimately show ?thesis using ne by (simp add: py_replace_def)
    qed
  qed
qed

lemma replace_nonempty_skip:
  "old \<noteq> [] \<Longrightarrow> hd old \<notin> set pre \<Longrightarrow>
   replace_nonempty old new (pre @ s) = pre @ replace_nonempty old new s"
proof (induction pre)
  case Nil
  then show ?case by simp
next
  case (Cons c pre)
  then have "\<not> prefix old (c # pre @ s)" by (cases old) auto
  with Cons show ?case by simp
qed

lemma replace_nonempty_absent:
  "old \<noteq> [] \<Longrightarrow> hd old \<notin> set s \<Longrightarrow> replace_nonempty old new s = s"
  using replace_nonempty_skip[of old s new "[]"] by simp

lemma sublist_filter_length:
  "sublist xs ys \<Longrightarrow> length (filter P xs) \<le> length (filter P ys)"
  by (auto simp: sublist_def)

lemma example_datetime_str: "receipt_datetime_str receipt_slots = ascii ''18.05.2024 19:00''"
  by code_simp

lemma example_group: "receipt_group receipt_slots = long_text"
  by (simp add: receipt_group_def receipt_slots_def long_text_def)

lemma example_number: "str_int 7 = ''7''"
  by code_simp

lemma example_format_receipt_length:
  "length (format_receipt (receipt_group receipt_slots) (receipt_datetime_str receipt_slots)
     (cl_name receipt_client) (cl_phone receipt_client) long_text (rs_id receipt_reservation)) = 352"
  unfolding length_format_receipt
  by (simp add: example_group example_datetime_str example_number
      receipt_client_def receipt_reservation_def long_text_def ascii_def)

lemma example_receipt:
  "generate_booking_receipt long_text receipt_reservation receipt_client receipt_slots =
     receipt_head @ (replicate 45 97 @ ellipsis) @ receipt_datetime_label @
     ascii ''18.05.2024 19:00'' @ receipt_name_label @ ascii ''Igor'' @ receipt_phone_label @
     ascii ''89990001122'' @ receipt_address_label @ (replicate 45 97 @ ellipsis) @
     receipt_number_label @ ascii ''7'' @ receipt_tail"
proof -
  define mid where "mid = receipt_datetime_label @ ascii ''18.05.2024 19:00'' @
     receipt_name_label @ ascii ''Igor'' @ receipt_phone_label @ ascii ''89990001122'' @
     receipt_address_label"
  define post where "post = receipt_number_label @ ascii ''7'' @ receipt_tail"
  define new where "new = replicate 45 (97::nat) @ ellipsis"
  have fr: "format_receipt (receipt_group receipt_slots) (receipt_datetime_str receipt_slots)
      (cl_name receipt_client) (cl_phone receipt_client) long_text (rs_id receipt_reservation) =
      receipt_head @ long_text @ mid @ long_text @ post"
    by (simp add: format_receipt_def example_group example_datetime_str example_number
        receipt_client_def receipt_reservation_def mid_def post_def)
  have len: "length (receipt_head @ long_text @ mid @ long_text @ post) = 352"
    unfolding fr[symmetric] by (rule example_format_receipt_length)
  have ne: "long_text \<noteq> []" and hd: "hd long_text = 97" by (simp_all add: long_text_def)
  have a1: "97 \<notin> set receipt_head"
    by (simp add: receipt_head_def)
  have a2: "97 \<notin> set mid"
    by (simp add: mid_def receipt_datetime_label_def receipt_name_label_def
        receipt_phone_label_def receipt_address_label_def ascii_def)
  have a3: "97 \<notin> set post"
    by (simp add: post_def receipt_number_label_def receipt_tail_def ascii_def)
  have r3: "replace_nonempty long_text new post = post"
    using replace_nonempty_absent[OF ne, of post new] a3 hd by simp
  have r2: "replace_nonempty long_text new (mid @ long_text @ post) = mid @ new @ post"
    using replace_nonempty_skip[OF ne, of mid new "long_text @ post"] a2 hd
      replace_nonempty_prefix[OF ne, of new post] r3 by simp
  have r1: "replace_nonempty long_text new (receipt_head @ long_text @ mid @ long_text @ post) =
      receipt_head @ new @ mid @ new @ post"
    using replace_nonempty_skip[OF ne, of receipt_head new "long_text @ mid @ long_text @ post"]
      a1 hd replace_nonempty_prefix[OF ne, of new "mid @ long_text @ post"] r2 by simp
  have "generate_booking_receipt long_text receipt_reservation receipt_client receipt_slots =
      py_replace long_text new (receipt_head @ long_text @ mid @ long_text @ post)"
    unfolding generate_booking_receipt_def Let_def fr len
    by (simp add: long_text_def new_def)
  then show ?thesis
    using r1 ne by (simp add: py_replace_def mid_def post_def new_def)
qed

text \<open>
  C8. When the naive receipt is longer than 300 characters because the studio address is
  long, the receipt produced is at most 300 characters (this holds on every input, see
  \<open>receipt_length_le_300\<close>), the address is shortened first and the whole receipt only
  when that cannot suffice, and the receipt should still contain group, date and time, name
  and phone. It does when the address text occurs nowhere before the address field
  (\<open>receipt_keeps_fields\<close>). But the address is shortened by \<open>str.replace\<close> on the
  whole receipt, so a group text equal to the address is shortened with it: below, the
  address and the group are the same 100 characters, the naive receipt has 352 characters
  (252 without the address), the receipt produced has 248, and the group is no longer in it.
\<close>

theorem receipt_loses_group:
  "length (format_receipt (receipt_group receipt_slots) (receipt_datetime_str receipt_slots)
     (cl_name receipt_client) (cl_phone receipt_client) long_text (rs_id receipt_reservation)) = 352 \<and>
   length (format_receipt (receipt_group receipt_slots) (receipt_datetime_str receipt_slots)
     (cl_name receipt_client) (cl_phone receipt_client) [] (rs_id receipt_reservation)) = 252 \<and>
   length (generate_booking_receipt long_text receipt_reservation receipt_client receipt_slots) = 248 \<and>
   sublist (receipt_group receipt_slots)
     (format_receipt (receipt_group receipt_slots) (receipt_datetime_str receipt_slots)
     (cl_name receipt_client) (cl_phone receipt_client) long_text (rs_id receipt_reservation)) \<and>
   \<not> sublist (receipt_group receipt_slots)
        (generate_booking_receipt long_text receipt_reservation receipt_client receipt_slots)"
proof (intro conjI)
  show "length (format_receipt (receipt_group receipt_slots) (receipt_datetime_str receipt_slots)
     (cl_name receipt_client) (cl_phone receipt_client) long_text (rs_id receipt_reservation)) = 352"
    by (rule example_format_receipt_length)
  show "length (format_receipt (receipt_group receipt_slots) (receipt_datetime_str receipt_slots)
     (cl_name receipt_client) (cl_phone receipt_client) [] (rs_id receipt_reservation)) = 252"
    unfolding length_format_receipt
    by (simp add: example_group example_datetime_str example_number
        receipt_client_def receipt_reservation_def long_text_def ascii_def)
  show "length (generate_booking_receipt long_text receipt_reservation receipt_client receipt_slots) = 248"
    unfolding example_receipt
    by (simp add: receipt_head_def receipt_datetime_label_def receipt_name_label_def
        receipt_phone_label_def receipt_address_label_def receipt_number_label_def
        receipt_tail_def ellipsis_def ascii_def)
  show "sublist (receipt_group receipt_slots)
     (format_receipt (receipt_group receipt_slots) (receipt_datetime_str receipt_slots)
     (cl_name receipt_client) (cl_phone receipt_client) long_text (rs_id receipt_reservation))"
    unfolding format_receipt_def by (rule sublist_appendI)
  show "\<not> sublist (receipt_group receipt_slots)
        (generate_booking_receipt long_text receipt_reservation receipt_client receipt_slots)"
  proof
    assume "sublist (receipt_group receipt_slots)
        (generate_booking_receipt long_text receipt_reservation receipt_client receipt_slots)"
    from sublist_filter_length[OF this, of "\<lambda>c. c = 97"]
    have "length (filter (\<lambda>c. c = 97) (receipt_group receipt_slots)) \<le>
          length (filter (\<lambda>c. c = 97)
            (generate_booking_receipt long_text receipt_reservation receipt_client receipt_slots))" .
    moreover have "length (filter (\<lambda>c. c = 97) (receipt_group receipt_slots)) = 100"
      by (simp add: example_group long_text_def)
    moreover have "length (filter (\<lambda>c. c = 97)
            (generate_booking_receipt long_text receipt_reservation receipt_client receipt_slots)) = 90"
      unfolding example_receipt
      by (simp add: receipt_head_def receipt_datetime_label_def
          receipt_name_label_def receipt_phone_label_def receipt_address_label_def
          receipt_number_label_def receipt_tail_def ellipsis_def ascii_def)
    ultimately show False by simp
  qed
qed

lemma replace_nonempty_first:
  assumes "old \<noteq> []" and "\<not> sublist old (pre @ butlast old)"
  shows "replace_nonempty old new (pre @ old @ s) = pre @ new @ replace_nonempty old new s"
  using assms(2)
proof (induction pre)
  case Nil
  then show ?case using replace_nonempty_prefix[OF assms(1)] by simp
next
  case (Cons c pre)
  have split: "c # pre @ old @ s = (c # pre @ butlast old) @ ([last old] @ s)"
    using assms(1) by simp
  have "\<not> prefix old (c # pre @ old @ s)"
  proof
    assume "prefix old (c # pre @ old @ s)"
    then have p: "prefix old ((c # pre @ butlast old) @ ([last old] @ s))" using split by simp
    have l: "length old \<le> length (c # pre @ butlast old)" by simp
    have q: "prefix (c # pre @ butlast old) ((c # pre @ butlast old) @ ([last old] @ s))"
      by (rule prefixI) simp
    have "prefix old (c # pre @ butlast old)"
      by (rule prefix_length_prefix[OF p q l])
    then have "sublist old ((c # pre) @ butlast old)" by (simp add: sublist_Cons_right)
    with Cons.prems show False by simp
  qed
  moreover have "\<not> sublist old (pre @ butlast old)"
    using Cons.prems by (simp add: sublist_Cons_right)
  ultimately show ?case using Cons.IH by simp
qed

lemma receipt_keeps_fields:
  fixes studio_address :: ustr
  defines "before \<equiv> \<lambda>cl sl. receipt_head @ receipt_group sl @ receipt_datetime_label @
     receipt_datetime_str sl @ receipt_name_label @ cl_name cl @ receipt_phone_label @
     cl_phone cl @ receipt_address_label"
  assumes long: "length (format_receipt (receipt_group sl) (receipt_datetime_str sl) (cl_name cl)
       (cl_phone cl) studio_address (rs_id res)) > 300"
    and fits: "length (format_receipt (receipt_group sl) (receipt_datetime_str sl) (cl_name cl)
       (cl_phone cl) [] (rs_id res)) < 297"
    and once: "\<not> sublist studio_address (before cl sl @ butlast studio_address)"
  shows "prefix (before cl sl @ take (297 - length (format_receipt (receipt_group sl)
       (receipt_datetime_str sl) (cl_name cl) (cl_phone cl) [] (rs_id res))) studio_address @ ellipsis)
     (generate_booking_receipt studio_address res cl sl)"
proof -
  define post where "post = receipt_number_label @ ascii (str_int (rs_id res)) @ receipt_tail"
  define base where "base = length (format_receipt (receipt_group sl) (receipt_datetime_str sl)
    (cl_name cl) (cl_phone cl) [] (rs_id res))"
  define new where "new = take (297 - base) studio_address @ ellipsis"
  have fr: "format_receipt (receipt_group sl) (receipt_datetime_str sl) (cl_name cl)
       (cl_phone cl) studio_address (rs_id res) = before cl sl @ studio_address @ post"
    by (simp add: format_receipt_def before_def post_def)
  have lb: "int (length (before cl sl @ studio_address @ post)) - int (length studio_address) = int base"
    unfolding base_def fr[symmetric] length_format_receipt by simp
  have ne: "studio_address \<noteq> []"
    using long fits unfolding length_format_receipt by auto
  have m: "nat (300 - int base - 3) = 297 - base" "300 - int base - 3 > 0"
    using fits by (simp_all add: base_def)
  have "generate_booking_receipt studio_address res cl sl =
      py_replace studio_address new (before cl sl @ studio_address @ post)"
    using long m unfolding generate_booking_receipt_def Let_def fr lb new_def
    by simp
  also have "\<dots> = before cl sl @ new @ replace_nonempty studio_address new post"
    using ne replace_nonempty_first[OF ne once] by (simp add: py_replace_def)
  finally show ?thesis by (simp add: new_def base_def)
qed

section \<open>Properties of the circuit breaker and of the retry loop\<close>

lemma wait_exponential_values:
  "wait_exponential 1 1 10 1 = 1" "wait_exponential 1 1 10 2 = 2"
  "wait_exponential 1 1 10 (Suc 0) = 1" "wait_exponential 1 1 10 (Suc (Suc 0)) = 2"
  by (simp_all add: wait_exponential_def)


lemma request_unroll:
  "request srv now cs rq =
     (case request_once srv now cs rq of
        (Inr resp, c1) \<Rightarrow> (Inr resp, c1)
      | (Inl e1, c1) \<Rightarrow>
          if \<not> is_http_error e1 then (Inl e1, c1)
          else
            (case request_once srv (now + 1) (c1\<lparr>sleeps := sleeps c1 @ [1]\<rparr>) rq of
               (Inr resp, c2) \<Rightarrow> (Inr resp, c2)
             | (Inl e2, c2) \<Rightarrow>
                 if \<not> is_http_error e2 then (Inl e2, c2)
                 else
                   (case request_once srv (now + 1 + 2) (c2\<lparr>sleeps := sleeps c2 @ [2]\<rparr>) rq of
                      (Inr resp, c3) \<Rightarrow> (Inr resp, c3)
                    | (Inl e3, c3) \<Rightarrow>
                        if \<not> is_http_error e3 then (Inl e3, c3)
                        else (Inl (Retry_error e3), c3))))"
proof -
  have a3: "retrying srv t 3 c rq =
      (case request_once srv t c rq of
         (Inr resp, c3) \<Rightarrow> (Inr resp, c3)
       | (Inl e3, c3) \<Rightarrow>
           if \<not> is_http_error e3 then (Inl e3, c3) else (Inl (Retry_error e3), c3))" for t c
    by (subst retrying.simps) (simp split: prod.splits sum.splits)
  have a2: "retrying srv t 2 c rq =
      (case request_once srv t c rq of
         (Inr resp, c2) \<Rightarrow> (Inr resp, c2)
       | (Inl e2, c2) \<Rightarrow>
           if \<not> is_http_error e2 then (Inl e2, c2)
           else retrying srv (t + 2) 3 (c2\<lparr>sleeps := sleeps c2 @ [2]\<rparr>) rq)" for t c
    by (subst retrying.simps)
       (simp add: wait_exponential_values Let_def numeral_2_eq_2 numeral_3_eq_3
          split: prod.splits sum.splits)
  have a1: "retrying srv t 1 c rq =
      (case request_once srv t c rq of
         (Inr resp, c1) \<Rightarrow> (Inr resp, c1)
       | (Inl e1, c1) \<Rightarrow>
           if \<not> is_http_error e1 then (Inl e1, c1)
           else retrying srv (t + 1) 2 (c1\<lparr>sleeps := sleeps c1 @ [1]\<rparr>) rq)" for t c
    by (subst retrying.simps)
       (simp add: wait_exponential_values Let_def numeral_2_eq_2 numeral_3_eq_3
          split: prod.splits sum.splits)
  show ?thesis
    unfolding request_def a1 a2 a3 ..
qed

lemma record_failure_fields:
  "failure_count (snd (record_failure t cb)) = failure_count cb + 1"
  "failure_threshold (snd (record_failure t cb)) = failure_threshold cb"
  "timeout_seconds (snd (record_failure t cb)) = timeout_seconds cb"
  "last_failure_time (snd (record_failure t cb)) = Some t"
  "is_open (snd (record_failure t cb)) =
     (is_open cb \<or> failure_count cb + 1 \<ge> failure_threshold cb)"
  by (simp_all add: record_failure_def Let_def)

lemma after_failures_fields:
  "failure_count (after_failures ts cb) = failure_count cb + int (length ts)"
  "failure_threshold (after_failures ts cb) = failure_threshold cb"
  "timeout_seconds (after_failures ts cb) = timeout_seconds cb"
  by (induction ts arbitrary: cb) (simp_all add: record_failure_fields)

lemma after_failures_open:
  "is_open (after_failures ts cb) =
     (is_open cb \<or> (ts \<noteq> [] \<and> failure_count cb + int (length ts) \<ge> failure_threshold cb))"
proof (induction ts arbitrary: cb)
  case Nil
  then show ?case by simp
next
  case (Cons t ts)
  show ?case
    unfolding after_failures.simps Cons.IH record_failure_fields
    by (cases ts) auto
qed

lemma after_failures_last:
  "ts \<noteq> [] \<Longrightarrow> last_failure_time (after_failures ts cb) = Some (last ts)"
  by (induction ts arbitrary: cb) (auto simp: record_failure_fields)

lemma should_attempt_closed: "\<not> is_open cb \<Longrightarrow> should_attempt now cb = (True, cb)"
  by (simp add: should_attempt_def)

lemma should_attempt_within:
  "is_open cb \<Longrightarrow> last_failure_time cb = Some t \<Longrightarrow>
   now - t \<le> real_of_int (timeout_seconds cb) \<Longrightarrow> should_attempt now cb = (False, cb)"
  by (simp add: should_attempt_def)

lemma should_attempt_after:
  "is_open cb \<Longrightarrow> last_failure_time cb = Some t \<Longrightarrow>
   now - t > real_of_int (timeout_seconds cb) \<Longrightarrow>
   should_attempt now cb = (True, cb\<lparr>is_open := False, failure_count := 0\<rparr>)"
  by (simp add: should_attempt_def)

lemma request_once_rejected:
  assumes "should_attempt now (breaker cs) = (False, breaker cs)"
  shows "request_once srv now cs rq = (Inl (Runtime_error circuit_open_text), cs)"
  using assms by (simp add: request_once_def)

lemma request_rejected:
  assumes "should_attempt now (breaker cs) = (False, breaker cs)"
  shows "request srv now cs rq = (Inl (Runtime_error circuit_open_text), cs)"
  unfolding request_unroll request_once_rejected[OF assms] by simp

lemma request_once_ok:
  assumes "should_attempt now (breaker cs) = (True, cb)"
    and "srv (net_log cs @ [rq]) = Reply_ok status b"
  shows "request_once srv now cs rq =
           (Inr (status, b), cs\<lparr>breaker := record_success cb, net_log := net_log cs @ [rq]\<rparr>)"
  using assms by (simp add: request_once_def)

lemma request_once_failed:
  assumes "should_attempt now (breaker cs) = (True, cb)"
    and "reply_exn (srv (net_log cs @ [rq])) = Some e"
  shows "request_once srv now cs rq =
           (Inl e, cs\<lparr>breaker := snd (record_failure now cb), net_log := net_log cs @ [rq]\<rparr>)"
  using assms by (cases "srv (net_log cs @ [rq])") (simp_all add: request_once_def)

lemma reply_exn_is_http_error: "reply_exn r = Some e \<Longrightarrow> is_http_error e"
  by (cases r) auto

lemma request_ok:
  assumes "should_attempt now (breaker cs) = (True, cb)"
    and "srv (net_log cs @ [rq]) = Reply_ok status b"
  shows "request srv now cs rq =
           (Inr (status, b), cs\<lparr>breaker := record_success cb, net_log := net_log cs @ [rq]\<rparr>)"
  using request_once_ok[where srv = srv, OF assms] by (simp add: request_unroll)




lemma request_three_failures:
  assumes first: "should_attempt now (breaker cs) = (True, cb0)"
    and closed: "\<not> is_open cb0"
    and room: "failure_count cb0 + 2 < failure_threshold cb0"
    and e1: "reply_exn (srv (net_log cs @ [rq])) = Some e1"
    and e2: "reply_exn (srv (net_log cs @ [rq, rq])) = Some e2"
    and e3: "reply_exn (srv (net_log cs @ [rq, rq, rq])) = Some e3"
  shows "request srv now cs rq =
           (Inl (Retry_error e3),
            cs\<lparr>breaker := after_failures [now, now + 1, now + 1 + 2] cb0,
               net_log := net_log cs @ [rq, rq, rq], sleeps := sleeps cs @ [1, 2]\<rparr>)"
proof -
  define b1 where "b1 = snd (record_failure now cb0)"
  define b2 where "b2 = snd (record_failure (now + 1) b1)"
  define b3 where "b3 = snd (record_failure (now + 1 + 2) b2)"
  define c1 where "c1 = cs\<lparr>breaker := b1, net_log := net_log cs @ [rq]\<rparr>"
  define c1' where "c1' = c1\<lparr>sleeps := sleeps c1 @ [1]\<rparr>"
  define c2 where "c2 = c1'\<lparr>breaker := b2, net_log := net_log c1' @ [rq]\<rparr>"
  define c2' where "c2' = c2\<lparr>sleeps := sleeps c2 @ [2]\<rparr>"
  define c3 where "c3 = c2'\<lparr>breaker := b3, net_log := net_log c2' @ [rq]\<rparr>"
  have o1: "\<not> is_open b1" and o2: "\<not> is_open b2"
    using closed room by (simp_all add: b1_def b2_def record_failure_fields)
  have s1: "request_once srv now cs rq = (Inl e1, c1)"
    using request_once_failed[where srv = srv, OF first e1]
    by (simp add: c1_def b1_def)
  have s2: "request_once srv (now + 1) c1' rq = (Inl e2, c2)"
    using request_once_failed[where srv = srv and cs = c1' and rq = rq and now = "now + 1"
        and cb = b1 and e = e2]
      should_attempt_closed[OF o1, of "now + 1"] e2
    by (simp add: c2_def b2_def c1'_def c1_def)
  have s3: "request_once srv (now + 1 + 2) c2' rq = (Inl e3, c3)"
    using request_once_failed[where srv = srv and cs = c2' and rq = rq and now = "now + 1 + 2"
        and cb = b2 and e = e3]
      should_attempt_closed[OF o2, of "now + 1 + 2"] e3
    by (simp add: c3_def b3_def c2'_def c2_def c1'_def c1_def)
  have "request srv now cs rq = (Inl (Retry_error e3), c3)"
    unfolding request_unroll s1 using s2 s3
      reply_exn_is_http_error[OF e1] reply_exn_is_http_error[OF e2] reply_exn_is_http_error[OF e3]
    by (simp add: c1'_def c2'_def)
  moreover have "c3 = cs\<lparr>breaker := after_failures [now, now + 1, now + 1 + 2] cb0,
               net_log := net_log cs @ [rq, rq, rq], sleeps := sleeps cs @ [1, 2]\<rparr>"
    by (simp add: c3_def c2'_def c2_def c1'_def c1_def b3_def b2_def b1_def)
  ultimately show ?thesis by simp
qed

lemma opened_breaker_fields:
  "is_open opened_breaker" "last_failure_time opened_breaker = Some 0"
  "failure_threshold opened_breaker = 5" "timeout_seconds opened_breaker = 60"
  "failure_count opened_breaker = 5"
  by (simp_all add: opened_breaker_def record_failure_fields new_circuit_breaker_def)

text \<open>
  C2 as stated fails in its last part. The breaker below has been opened by five failures at
  time 0. A call at time 61 is let through; all its three attempts time out. The claim has
  the breaker open again after that; it is closed, with a failure count of 3.
\<close>

theorem breaker_reopen_counterexample:
  "is_open opened_breaker \<and> last_failure_time opened_breaker = Some 0 \<and>
   fst (request down_server 61 (client_with opened_breaker) example_request) =
     Inl (Retry_error Timeout_exception) \<and>
   \<not> is_open (breaker (snd (request down_server 61 (client_with opened_breaker) example_request))) \<and>
   failure_count (breaker (snd (request down_server 61 (client_with opened_breaker)
     example_request))) = 3"
proof -
  have sa: "should_attempt 61 (breaker (client_with opened_breaker)) =
      (True, opened_breaker\<lparr>is_open := False, failure_count := 0\<rparr>)"
    using should_attempt_after[of opened_breaker 0 61]
    by (simp add: client_with_def opened_breaker_fields)
  have "request down_server 61 (client_with opened_breaker) example_request =
      (Inl (Retry_error Timeout_exception),
       (client_with opened_breaker)\<lparr>breaker := after_failures [61, 61 + 1, 61 + 1 + 2]
           (opened_breaker\<lparr>is_open := False, failure_count := 0\<rparr>),
         net_log := net_log (client_with opened_breaker) @
           [example_request, example_request, example_request],
         sleeps := sleeps (client_with opened_breaker) @ [1, 2]\<rparr>)"
    by (rule request_three_failures[OF sa])
       (simp_all add: opened_breaker_fields down_server_def)
  then show ?thesis
    by (simp add: opened_breaker_fields record_failure_fields)
qed

text \<open>
  C2, amended. The breaker of the CRM client starts closed and is open after 5 failures
  recorded in a row (a recorded success closes it and sets the count to zero). While it is
  open and not more than 60 seconds have passed since the last recorded failure, a call is
  refused at once with the breaker-open error and nothing is sent. Once more than 60 seconds
  have passed, \<open>should_attempt\<close> closes the breaker and sets the count to zero before
  the call is made. If the call succeeds the breaker stays closed with count zero. If it
  fails (all three attempts), the failures are counted from zero: the breaker stays closed
  with count 3, the time of the last failure is the new one, and the breaker opens again
  only when the count reaches 5.
\<close>

theorem circuit_breaker_trial:
  "(\<not> is_open new_circuit_breaker \<and> failure_count new_circuit_breaker = 0) \<and>
   (\<forall>ts. is_open (after_failures ts new_circuit_breaker) = (5 \<le> length ts)) \<and>
   (\<forall>cb. \<not> is_open (record_success cb) \<and> failure_count (record_success cb) = 0) \<and>
   (\<forall>srv now cs rq t.
      is_open (breaker cs) \<and> last_failure_time (breaker cs) = Some t \<and>
      now - t \<le> real_of_int (timeout_seconds (breaker cs)) \<longrightarrow>
      request srv now cs rq = (Inl (Runtime_error circuit_open_text), cs)) \<and>
   (\<forall>srv now cs rq t.
      is_open (breaker cs) \<and> last_failure_time (breaker cs) = Some t \<and>
      now - t > real_of_int (timeout_seconds (breaker cs)) \<longrightarrow>
      should_attempt now (breaker cs) =
        (True, (breaker cs)\<lparr>is_open := False, failure_count := 0\<rparr>) \<and>
      (\<forall>status b. srv (net_log cs @ [rq]) = Reply_ok status b \<longrightarrow>
         request srv now cs rq =
           (Inr (status, b),
            cs\<lparr>breaker := (breaker cs)\<lparr>is_open := False, failure_count := 0,
                  last_failure_time := None\<rparr>,
               net_log := net_log cs @ [rq]\<rparr>)) \<and>
      (\<forall>e1 e2 e3.
         reply_exn (srv (net_log cs @ [rq])) = Some e1 \<and>
         reply_exn (srv (net_log cs @ [rq, rq])) = Some e2 \<and>
         reply_exn (srv (net_log cs @ [rq, rq, rq])) = Some e3 \<and>
         3 < failure_threshold (breaker cs) \<longrightarrow>
         fst (request srv now cs rq) = Inl (Retry_error e3) \<and>
         net_log (snd (request srv now cs rq)) = net_log cs @ [rq, rq, rq] \<and>
         \<not> is_open (breaker (snd (request srv now cs rq))) \<and>
         failure_count (breaker (snd (request srv now cs rq))) = 3 \<and>
         last_failure_time (breaker (snd (request srv now cs rq))) = Some (now + 3)))"
proof (intro conjI allI impI)
  fix ts
  show "is_open (after_failures ts new_circuit_breaker) = (5 \<le> length ts)"
    by (auto simp: after_failures_open new_circuit_breaker_def)
next
  fix srv :: server and now :: time and cs :: client_state and rq :: request and t :: time
  assume "is_open (breaker cs) \<and> last_failure_time (breaker cs) = Some t \<and>
      now - t \<le> real_of_int (timeout_seconds (breaker cs))"
  then have "should_attempt now (breaker cs) = (False, breaker cs)"
    using should_attempt_within[of "breaker cs" t now] by simp
  then show "request srv now cs rq = (Inl (Runtime_error circuit_open_text), cs)"
    by (rule request_rejected)
next
  fix srv :: server and now :: time and cs :: client_state and rq :: request and t :: time
  assume a: "is_open (breaker cs) \<and> last_failure_time (breaker cs) = Some t \<and>
      now - t > real_of_int (timeout_seconds (breaker cs))"
  then show sa: "should_attempt now (breaker cs) =
        (True, (breaker cs)\<lparr>is_open := False, failure_count := 0\<rparr>)"
    using should_attempt_after[of "breaker cs" t now] by simp
  {
    fix status b
    assume "srv (net_log cs @ [rq]) = Reply_ok status b"
    from request_ok[where srv = srv, OF sa this]
    show "request srv now cs rq =
           (Inr (status, b),
            cs\<lparr>breaker := (breaker cs)\<lparr>is_open := False, failure_count := 0,
                  last_failure_time := None\<rparr>,
               net_log := net_log cs @ [rq]\<rparr>)"
      by (simp add: record_success_def)
  }
  {
    fix e1 e2 e3
    assume e: "reply_exn (srv (net_log cs @ [rq])) = Some e1 \<and>
         reply_exn (srv (net_log cs @ [rq, rq])) = Some e2 \<and>
         reply_exn (srv (net_log cs @ [rq, rq, rq])) = Some e3 \<and>
         3 < failure_threshold (breaker cs)"
    have r: "request srv now cs rq =
           (Inl (Retry_error e3),
            cs\<lparr>breaker := after_failures [now, now + 1, now + 1 + 2]
                  ((breaker cs)\<lparr>is_open := False, failure_count := 0\<rparr>),
               net_log := net_log cs @ [rq, rq, rq], sleeps := sleeps cs @ [1, 2]\<rparr>)"
      by (rule request_three_failures[where srv = srv, OF sa]) (use e in simp_all)
    show "fst (request srv now cs rq) = Inl (Retry_error e3)" by (simp add: r)
    show "net_log (snd (request srv now cs rq)) = net_log cs @ [rq, rq, rq]" by (simp add: r)
    show "\<not> is_open (breaker (snd (request srv now cs rq)))"
      using e by (simp add: r record_failure_fields)
    show "failure_count (breaker (snd (request srv now cs rq))) = 3"
      by (simp add: r record_failure_fields)
    show "last_failure_time (breaker (snd (request srv now cs rq))) = Some (now + 3)"
      by (simp add: r record_failure_fields)
  }
qed (simp_all add: new_circuit_breaker_def record_success_def)

text \<open>C2, amended, on the breaker opened at time 0: calls at 60 and at 61 seconds.\<close>

theorem circuit_breaker_trial_witness:
  "is_open opened_breaker \<and> last_failure_time opened_breaker = Some 0 \<and>
   timeout_seconds opened_breaker = 60 \<and>
   request down_server 60 (client_with opened_breaker) example_request =
     (Inl (Runtime_error circuit_open_text), client_with opened_breaker) \<and>
   request ok_server 61 (client_with opened_breaker) example_request =
     (Inr (200, Json_rows []),
      \<lparr>breaker = opened_breaker\<lparr>is_open := False, failure_count := 0,
         last_failure_time := None\<rparr>,
       net_log = [example_request], sleeps = []\<rparr>) \<and>
   fst (request down_server 61 (client_with opened_breaker) example_request) =
     Inl (Retry_error Timeout_exception) \<and>
   \<not> is_open (breaker (snd (request down_server 61 (client_with opened_breaker)
     example_request))) \<and>
   failure_count (breaker (snd (request down_server 61 (client_with opened_breaker)
     example_request))) = 3"
proof -
  define c0 where "c0 = client_with opened_breaker"
  have b: "breaker c0 = opened_breaker" "net_log c0 = []" "sleeps c0 = []"
    by (simp_all add: c0_def client_with_def)
  note f = opened_breaker_fields
  from circuit_breaker_trial have
    "is_open (breaker c0) \<and> last_failure_time (breaker c0) = Some 0 \<and>
      60 - 0 \<le> real_of_int (timeout_seconds (breaker c0)) \<longrightarrow>
      request down_server 60 c0 example_request = (Inl (Runtime_error circuit_open_text), c0)"
    by blast
  then have w1: "request down_server 60 c0 example_request =
      (Inl (Runtime_error circuit_open_text), c0)"
    by (simp add: b f)
  from circuit_breaker_trial have
    "is_open (breaker c0) \<and> last_failure_time (breaker c0) = Some 0 \<and>
      61 - 0 > real_of_int (timeout_seconds (breaker c0)) \<longrightarrow>
      (\<forall>status b. ok_server (net_log c0 @ [example_request]) = Reply_ok status b \<longrightarrow>
         request ok_server 61 c0 example_request =
           (Inr (status, b),
            c0\<lparr>breaker := (breaker c0)\<lparr>is_open := False, failure_count := 0,
                  last_failure_time := None\<rparr>,
               net_log := net_log c0 @ [example_request]\<rparr>))"
    by blast
  then have w2: "request ok_server 61 c0 example_request =
     (Inr (200, Json_rows []),
      \<lparr>breaker = opened_breaker\<lparr>is_open := False, failure_count := 0,
         last_failure_time := None\<rparr>,
       net_log = [example_request], sleeps = []\<rparr>)"
    by (simp add: b f ok_server_def)
  from circuit_breaker_trial have
    "is_open (breaker c0) \<and> last_failure_time (breaker c0) = Some 0 \<and>
      61 - 0 > real_of_int (timeout_seconds (breaker c0)) \<longrightarrow>
      (\<forall>e1 e2 e3.
         reply_exn (down_server (net_log c0 @ [example_request])) = Some e1 \<and>
         reply_exn (down_server (net_log c0 @ [example_request, example_request])) = Some e2 \<and>
         reply_exn (down_server (net_log c0 @ [example_request, example_request,
           example_request])) = Some e3 \<and>
         3 < failure_threshold (breaker c0) \<longrightarrow>
         fst (request down_server 61 c0 example_request) = Inl (Retry_error e3) \<and>
         net_log (snd (request down_server 61 c0 example_request)) =
           net_log c0 @ [example_request, example_request, example_request] \<and>
         \<not> is_open (breaker (snd (request down_server 61 c0 example_request))) \<and>
         failure_count (breaker (snd (request down_server 61 c0 example_request))) = 3 \<and>
         last_failure_time (breaker (snd (request down_server 61 c0 example_request))) =
           Some (61 + 3))"
    by blast
  then have w3: "fst (request down_server 61 c0 example_request) =
      Inl (Retry_error Timeout_exception) \<and>
    \<not> is_open (breaker (snd (request down_server 61 c0 example_request))) \<and>
    failure_count (breaker (snd (request down_server 61 c0 example_request))) = 3"
    by (simp add: b f down_server_def)
  show ?thesis using w1 w2 w3 f by (simp add: c0_def)
qed




section \<open>Properties of the schedule cache\<close>

lemma schedule_key_prefix:
  "prefix ''impulse:cache:schedule:'' (cache_get_key ''schedule'' [k])"
  by (simp add: cache_get_key_def)

lemma cache_get_live:
  assumes "live now r (cache_get_key entity parts) = Some e" "entry_value e = Json_schedules xs"
  shows "cache_get now r entity parts = Inr (Some (Json_schedules xs))"
  using assms by (simp add: cache_get_def get_json_def redis_get_def)

lemma cache_get_absent:
  assumes "r (cache_get_key entity parts) = None"
  shows "cache_get now r entity parts = Inr None"
  using assms by (simp add: cache_get_def get_json_def redis_get_def live_def)

lemma cache_get_miss:
  assumes "redis_get now r (cache_get_key entity parts) = None"
  shows "cache_get now r entity parts = Inr None"
  using assms by (simp add: cache_get_def get_json_def)

lemma get_schedule_hit:
  assumes "live now r (cache_get_key ''schedule'' [schedule_cache_key df dt g]) = Some e"
    and "entry_value e = Json_schedules xs"
  shows "get_schedule h srv now r cs df dt g = (Inr xs, r, cs)"
  using cache_get_live[OF assms] by (simp add: get_schedule_def)

lemma client_list_ok:
  assumes "should_attempt now (breaker cs) = (True, cb)"
    and "srv (net_log cs @ [list_request entity fs filters limit]) = Reply_ok status (Json_rows rows)"
  shows "client_list srv now cs entity fs filters limit =
           (Inr rows, cs\<lparr>breaker := record_success cb,
                         net_log := net_log cs @ [list_request entity fs filters limit]\<rparr>)"
  using request_ok[where srv = srv, OF assms] by (simp add: client_list_def)

lemma get_schedule_miss_ok:
  assumes miss: "redis_get now r (cache_get_key ''schedule'' [schedule_cache_key df dt g]) = None"
    and sa: "should_attempt now (breaker cs) = (True, cb)"
    and reply: "srv (net_log cs @ [list_request ''schedule'' schedule_fields
                  (schedule_filters df g) 1000]) = Reply_ok status (Json_rows rows)"
    and parse: "parse_all as_schedule rows = Inr schedules"
  shows "get_schedule h srv now r cs df dt g =
           (Inr schedules,
            r(cache_get_key ''schedule'' [schedule_cache_key df dt g] \<mapsto>
                \<lparr>entry_value = Json_schedules schedules, entry_expiry = Some (now + 900)\<rparr>),
            cs\<lparr>breaker := record_success cb,
               net_log := net_log cs @ [list_request ''schedule'' schedule_fields
                  (schedule_filters df g) 1000]\<rparr>)"
  using cache_get_miss[OF miss] client_list_ok[where srv = srv, OF sa reply] parse
  by (simp add: get_schedule_def cache_set_def redis_set_def cache_get_ttl_def)

lemma request_once_Inr_closed:
  "request_once srv now cs rq = (Inr x, cs') \<Longrightarrow> \<not> is_open (breaker cs')"
  by (auto simp: request_once_def Let_def record_success_def
      split: prod.splits bool.splits reply.splits)

lemma retrying_Inr_closed:
  "retrying srv now n cs rq = (Inr x, cs') \<Longrightarrow> \<not> is_open (breaker cs')"
proof (induction srv now n cs rq rule: retrying.induct)
  case (1 srv now n cs rq)
  obtain y c where r: "request_once srv now cs rq = (y, c)"
    by (cases "request_once srv now cs rq")
  show ?case
  proof (cases y)
    case (Inr resp)
    then have "retrying srv now n cs rq = (Inr resp, c)" using r by (subst retrying.simps) simp
    with "1.prems" r Inr show ?thesis using request_once_Inr_closed[of srv now cs rq resp c] by simp
  next
    case (Inl e)
    show ?thesis
    proof (cases "is_http_error e \<and> \<not> n \<ge> 3")
      case False
      then have "retrying srv now n cs rq =
          (if \<not> is_http_error e then (Inl e, c) else (Inl (Retry_error e), c))"
        using r Inl by (subst retrying.simps) auto
      with "1.prems" show ?thesis by (auto split: if_splits)
    next
      case True
      then have h: "\<not> \<not> is_http_error e" and n: "\<not> 3 \<le> n" by simp_all
      have "retrying srv now n cs rq =
          retrying srv (now + wait_exponential 1 1 10 n) (n + 1)
            (c\<lparr>sleeps := sleeps c @ [wait_exponential 1 1 10 n]\<rparr>) rq"
        using r Inl h n by (subst retrying.simps) (simp add: Let_def)
      with "1.IH"[OF r[symmetric] Inl h n refl] "1.prems" show ?thesis by simp
    qed
  qed
qed

lemma request_once_log_grows:
  "\<exists>ys. net_log (snd (request_once srv now cs rq)) = net_log cs @ ys"
  by (auto simp: request_once_def Let_def split: prod.splits bool.splits reply.splits)

lemma retrying_log_grows:
  "\<exists>ys. net_log (snd (retrying srv now n cs rq)) = net_log cs @ ys"
proof (induction srv now n cs rq rule: retrying.induct)
  case (1 srv now n cs rq)
  obtain y c where r: "request_once srv now cs rq = (y, c)"
    by (cases "request_once srv now cs rq")
  obtain ys where ys: "net_log c = net_log cs @ ys"
    using request_once_log_grows[of srv now cs rq] r by auto
  show ?case
  proof (cases y)
    case (Inr resp)
    then have "retrying srv now n cs rq = (Inr resp, c)" using r by (subst retrying.simps) simp
    then show ?thesis using ys by simp
  next
    case (Inl e)
    show ?thesis
    proof (cases "is_http_error e \<and> \<not> n \<ge> 3")
      case False
      then have "snd (retrying srv now n cs rq) = c"
        using r Inl by (subst retrying.simps) auto
      then show ?thesis using ys by simp
    next
      case True
      then have h: "\<not> \<not> is_http_error e" and n: "\<not> 3 \<le> n" by simp_all
      have "retrying srv now n cs rq =
          retrying srv (now + wait_exponential 1 1 10 n) (n + 1)
            (c\<lparr>sleeps := sleeps c @ [wait_exponential 1 1 10 n]\<rparr>) rq"
        using r Inl h n by (subst retrying.simps) (simp add: Let_def)
      with "1.IH"[OF r[symmetric] Inl h n refl] ys show ?thesis by auto
    qed
  qed
qed

lemma request_closed_sends:
  assumes "\<not> is_open (breaker cs)"
  shows "\<exists>rest. net_log (snd (request srv now cs rq)) = net_log cs @ rq # rest"
proof -
  obtain y c where r: "request_once srv now cs rq = (y, c)"
    by (cases "request_once srv now cs rq")
  have c: "net_log c = net_log cs @ [rq]"
    using r assms
    by (auto simp: request_once_def should_attempt_def Let_def split: reply.splits)
  show ?thesis
  proof (cases "\<exists>e. y = Inl e \<and> is_http_error e")
    case False
    then have "snd (request srv now cs rq) = c"
      unfolding request_def using r by (subst retrying.simps) (auto split: sum.splits)
    then show ?thesis using c by simp
  next
    case True
    then obtain e where e: "y = Inl e" "is_http_error e" by auto
    have "request srv now cs rq =
        retrying srv (now + wait_exponential 1 1 10 1) (1 + 1)
          (c\<lparr>sleeps := sleeps c @ [wait_exponential 1 1 10 1]\<rparr>) rq"
      unfolding request_def using r e by (subst retrying.simps) (simp add: Let_def)
    moreover obtain ys where "net_log (snd (retrying srv (now + wait_exponential 1 1 10 1) (1 + 1)
          (c\<lparr>sleeps := sleeps c @ [wait_exponential 1 1 10 1]\<rparr>) rq)) =
        net_log (c\<lparr>sleeps := sleeps c @ [wait_exponential 1 1 10 1]\<rparr>) @ ys"
      using retrying_log_grows by blast
    ultimately show ?thesis using c by simp
  qed
qed

lemma client_create_Inr_closed:
  assumes "client_create srv now cs entity data = (Inr b, cs')"
  shows "\<not> is_open (breaker cs')"
proof -
  obtain y c where r: "request srv now cs (create_request entity data) = (y, c)"
    by (cases "request srv now cs (create_request entity data)")
  from assms r obtain x where "y = Inr x" "c = cs'"
    by (auto simp: client_create_def split: sum.splits body.splits)
  with r show ?thesis using retrying_Inr_closed[of srv now 1 cs _ x cs'] by (simp add: request_def)
qed

lemma handle_failure_cases:
  "\<exists>e' r'. handle_failure h now r action e = (e', r')"
  by (cases "handle_failure h now r action e") simp

lemma create_booking_success:
  assumes "create_booking h srv now r cs cid s = (Inr res, r', cs')"
  shows "r' = clear_entity r ''schedule''" and "\<not> is_open (breaker cs')"
proof -
  obtain y c where cc: "client_create srv now cs ''reservation''
      [(''client_id'', J_int cid), (''schedule_id'', j_sid s)] = (y, c)"
    by (cases "client_create srv now cs ''reservation''
      [(''client_id'', J_int cid), (''schedule_id'', j_sid s)]")
  from assms cc obtain result where y: "y = Inr result"
    by (cases y) (auto simp: create_booking_def split: prod.splits)
  from assms cc y have "r' = clear_entity r ''schedule'' \<and> c = cs'"
    by (auto simp: create_booking_def Let_def split: prod.splits sum.splits)
  then show "r' = clear_entity r ''schedule''" and "\<not> is_open (breaker cs')"
    using client_create_Inr_closed[of srv now cs "''reservation''" _ result c] cc y by simp_all
qed

lemma clear_entity_schedule:
  "prefix ''impulse:cache:schedule:'' k \<Longrightarrow> clear_entity r ''schedule'' k = None"
  by (simp add: clear_entity_def scan_delete_def)

lemma get_schedule_miss_client:
  assumes "cache_get now r ''schedule'' [schedule_cache_key df dt g] = Inr None"
  shows "snd (snd (get_schedule h srv now r cs df dt g)) =
         snd (request srv now cs (list_request ''schedule'' schedule_fields
                (schedule_filters df g) 1000))"
  using assms
  by (auto simp: get_schedule_def client_list_def Let_def
      split: prod.splits sum.splits body.splits)

lemma get_schedule_after_clear:
  assumes "\<forall>k. prefix ''impulse:cache:schedule:'' k \<longrightarrow> r k = None"
    and "\<not> is_open (breaker cs)"
  shows "\<exists>rest. net_log (snd (snd (get_schedule h srv now r cs df dt g))) =
           net_log cs @ list_request ''schedule'' schedule_fields (schedule_filters df g) 1000 # rest"
proof -
  have "r (cache_get_key ''schedule'' [schedule_cache_key df dt g]) = None"
    using assms(1) schedule_key_prefix by blast
  then have "cache_get now r ''schedule'' [schedule_cache_key df dt g] = Inr None"
    by (rule cache_get_absent)
  then show ?thesis
    using get_schedule_miss_client[of now r df dt g h srv cs]
      request_closed_sends[OF assms(2), of srv now]
    by simp
qed

text \<open>
  C4. A \<open>get_schedule\<close> call that misses the cache and gets its rows from the CRM
  stores them under the key built from its three parameters, for 15 minutes. A later call
  with the same parameters within the 15 minutes returns the stored rows and leaves the
  client as it was: nothing is sent. A \<open>create_booking\<close> that returns a reservation has
  deleted every key of the schedule cache, and has left the breaker closed, so the next
  \<open>get_schedule\<close>, whatever its parameters, misses the cache and sends its request to
  the CRM.
\<close>

theorem cache_round_trip:
  assumes miss: "redis_get now r (cache_get_key ''schedule'' [schedule_cache_key df dt g]) = None"
    and sa: "should_attempt now (breaker cs) = (True, cb)"
    and reply: "srv (net_log cs @ [list_request ''schedule'' schedule_fields
                  (schedule_filters df g) 1000]) = Reply_ok status (Json_rows rows)"
    and parse: "parse_all as_schedule rows = Inr schedules"
  shows
   "get_schedule h srv now r cs df dt g =
      (Inr schedules,
       r(cache_get_key ''schedule'' [schedule_cache_key df dt g] \<mapsto>
           \<lparr>entry_value = Json_schedules schedules, entry_expiry = Some (now + 15 * 60)\<rparr>),
       cs\<lparr>breaker := record_success cb,
          net_log := net_log cs @ [list_request ''schedule'' schedule_fields
             (schedule_filters df g) 1000]\<rparr>) \<and>
    (\<forall>now' cs'. now \<le> now' \<and> now' < now + 15 * 60 \<longrightarrow>
       get_schedule h srv now'
         (fst (snd (get_schedule h srv now r cs df dt g))) cs' df dt g =
       (Inr schedules, fst (snd (get_schedule h srv now r cs df dt g)), cs')) \<and>
    (\<forall>now2 ra ca cid s res rb cb'.
       create_booking h srv now2 ra ca cid s = (Inr res, rb, cb') \<longrightarrow>
       (\<forall>k. prefix ''impulse:cache:schedule:'' k \<longrightarrow> rb k = None) \<and>
       (\<forall>now3 df' dt' g'. \<exists>rest.
          net_log (snd (snd (get_schedule h srv now3 rb cb' df' dt' g'))) =
            net_log cb' @
            list_request ''schedule'' schedule_fields (schedule_filters df' g') 1000 # rest))"
proof (intro conjI allI impI)
  show first: "get_schedule h srv now r cs df dt g =
      (Inr schedules,
       r(cache_get_key ''schedule'' [schedule_cache_key df dt g] \<mapsto>
           \<lparr>entry_value = Json_schedules schedules, entry_expiry = Some (now + 15 * 60)\<rparr>),
       cs\<lparr>breaker := record_success cb,
          net_log := net_log cs @ [list_request ''schedule'' schedule_fields
             (schedule_filters df g) 1000]\<rparr>)"
    using get_schedule_miss_ok[where srv = srv, OF miss sa reply parse] by simp
  {
    fix now' :: time and cs' :: client_state
    assume t: "now \<le> now' \<and> now' < now + 15 * 60"
    show "get_schedule h srv now'
         (fst (snd (get_schedule h srv now r cs df dt g))) cs' df dt g =
       (Inr schedules, fst (snd (get_schedule h srv now r cs df dt g)), cs')"
      unfolding first fst_conv snd_conv
      by (rule get_schedule_hit[where xs = schedules and
            e = "\<lparr>entry_value = Json_schedules schedules, entry_expiry = Some (now + 15 * 60)\<rparr>"])
         (use t in \<open>simp_all add: live_def\<close>)
  }
  {
    fix now2 :: time and ra :: redis and ca :: client_state and cid s res rb cb'
    assume c: "create_booking h srv now2 ra ca cid s = (Inr res, rb, cb')"
    note cs = create_booking_success[OF c]
    {
      fix k :: string
      assume "prefix ''impulse:cache:schedule:'' k"
      then show "rb k = None" using cs(1) by (simp add: clear_entity_schedule)
    }
    then have cleared: "\<forall>k. prefix ''impulse:cache:schedule:'' k \<longrightarrow> rb k = None" by blast
    fix now3 :: time and df' dt' g'
    show "\<exists>rest.
          net_log (snd (snd (get_schedule h srv now3 rb cb' df' dt' g'))) =
            net_log cb' @
            list_request ''schedule'' schedule_fields (schedule_filters df' g') 1000 # rest"
      by (rule get_schedule_after_clear[OF cleared cs(2)])
  }
qed

text \<open>
  C4 on an empty store: a first fetch at time 1000, a second at 1500, a booking at 1600 and
  a fetch after it.
\<close>

theorem cache_round_trip_witness:
  "fst first_fetch = Inr [example_schedule] \<and>
   net_log (snd (snd first_fetch)) =
     [list_request ''schedule'' schedule_fields (schedule_filters (Some example_date) None) 1000] \<and>
   get_schedule example_handle_error crm_server 1500 (fst (snd first_fetch))
     (snd (snd first_fetch)) (Some example_date) None None =
     (Inr [example_schedule], fst (snd first_fetch), snd (snd first_fetch)) \<and>
   fst after_booking = Inr receipt_reservation \<and>
   fst (snd after_booking)
     (cache_get_key ''schedule'' [schedule_cache_key (Some example_date) None None]) = None \<and>
   prefix
     (net_log (snd (snd after_booking)) @
      [list_request ''schedule'' schedule_fields (schedule_filters (Some example_date) None) 1000])
     (net_log (snd (snd (get_schedule example_handle_error crm_server 1700
        (fst (snd after_booking)) (snd (snd after_booking)) (Some example_date) None None))))"
proof -
  define c0 where "c0 = client_with new_circuit_breaker"
  define rq where "rq = list_request ''schedule'' schedule_fields
    (schedule_filters (Some example_date) None) 1000"
  have miss: "redis_get 1000 Map.empty
      (cache_get_key ''schedule'' [schedule_cache_key (Some example_date) None None]) = None"
    by (simp add: redis_get_def live_def)
  have sa: "should_attempt 1000 (breaker c0) = (True, new_circuit_breaker)"
    by (simp add: c0_def client_with_def should_attempt_def new_circuit_breaker_def)
  have reply: "crm_server (net_log c0 @ [list_request ''schedule'' schedule_fields
      (schedule_filters (Some example_date) None) 1000]) =
      Reply_ok 200 (Json_rows [Schedule_row example_schedule])"
    by (simp add: crm_server_def list_request_def)
  have parse: "parse_all as_schedule [Schedule_row example_schedule] = Inr [example_schedule]"
    by simp
  note th = cache_round_trip[where h = example_handle_error and srv = crm_server,
      OF miss sa reply parse]
  have ff: "first_fetch =
      (Inr [example_schedule],
       [cache_get_key ''schedule'' [schedule_cache_key (Some example_date) None None] \<mapsto>
          \<lparr>entry_value = Json_schedules [example_schedule],
             entry_expiry = Some (1000 + 15 * 60)\<rparr>],
       c0\<lparr>breaker := record_success new_circuit_breaker, net_log := net_log c0 @ [rq]\<rparr>)"
    using th unfolding first_fetch_def c0_def rq_def by blast
  have p1: "fst first_fetch = Inr [example_schedule]" by (simp add: ff)
  have p2: "net_log (snd (snd first_fetch)) = [rq]" by (simp add: ff c0_def client_with_def)
  have p3: "get_schedule example_handle_error crm_server 1500 (fst (snd first_fetch))
     (snd (snd first_fetch)) (Some example_date) None None =
     (Inr [example_schedule], fst (snd first_fetch), snd (snd first_fetch))"
  proof -
    from th have "(1000::real) \<le> 1500 \<and> (1500::real) < 1000 + 15 * 60 \<longrightarrow>
       get_schedule example_handle_error crm_server 1500
         (fst (snd first_fetch)) (snd (snd first_fetch)) (Some example_date) None None =
       (Inr [example_schedule], fst (snd first_fetch), snd (snd first_fetch))"
      unfolding first_fetch_def c0_def by blast
    then show ?thesis by simp
  qed
  have sa2: "should_attempt 1600 (breaker (snd (snd first_fetch))) =
      (True, record_success new_circuit_breaker)"
    by (simp add: ff should_attempt_def record_success_def)
  have reply2: "crm_server (net_log (snd (snd first_fetch)) @
      [create_request ''reservation'' [(''client_id'', J_int 3), (''schedule_id'', j_sid (Sid_int 11))]]) =
      Reply_ok 200 (Json_object (Reservation_row receipt_reservation))"
    by (simp add: crm_server_def create_request_def)
  have ab: "after_booking =
      (Inr receipt_reservation, clear_entity (fst (snd first_fetch)) ''schedule'',
       (snd (snd first_fetch))\<lparr>breaker := record_success (record_success new_circuit_breaker),
          net_log := net_log (snd (snd first_fetch)) @
            [create_request ''reservation''
               [(''client_id'', J_int 3), (''schedule_id'', j_sid (Sid_int 11))]]\<rparr>)"
    using request_ok[where srv = crm_server, OF sa2 reply2]
    by (simp add: after_booking_def create_booking_def client_create_def)
  have p4: "fst after_booking = Inr receipt_reservation" by (simp add: ab)
  from th have c: "create_booking example_handle_error crm_server 1600 (fst (snd first_fetch))
       (snd (snd first_fetch)) 3 (Sid_int 11) =
       (Inr receipt_reservation, fst (snd after_booking), snd (snd after_booking)) \<longrightarrow>
       (\<forall>k. prefix ''impulse:cache:schedule:'' k \<longrightarrow> fst (snd after_booking) k = None) \<and>
       (\<forall>now3 df' dt' g'. \<exists>rest.
          net_log (snd (snd (get_schedule example_handle_error crm_server now3
            (fst (snd after_booking)) (snd (snd after_booking)) df' dt' g'))) =
            net_log (snd (snd after_booking)) @
            list_request ''schedule'' schedule_fields (schedule_filters df' g') 1000 # rest)"
    by blast
  have "create_booking example_handle_error crm_server 1600 (fst (snd first_fetch))
       (snd (snd first_fetch)) 3 (Sid_int 11) =
       (Inr receipt_reservation, fst (snd after_booking), snd (snd after_booking))"
    using p4 by (simp add: after_booking_def[symmetric] prod_eq_iff)
  with c have c1: "\<forall>k. prefix ''impulse:cache:schedule:'' k \<longrightarrow> fst (snd after_booking) k = None"
    and c2: "\<forall>now3 df' dt' g'. \<exists>rest.
          net_log (snd (snd (get_schedule example_handle_error crm_server now3
            (fst (snd after_booking)) (snd (snd after_booking)) df' dt' g'))) =
            net_log (snd (snd after_booking)) @
            list_request ''schedule'' schedule_fields (schedule_filters df' g') 1000 # rest"
    by blast+
  have p5: "fst (snd after_booking)
     (cache_get_key ''schedule'' [schedule_cache_key (Some example_date) None None]) = None"
    using c1 schedule_key_prefix by blast
  obtain rest where "net_log (snd (snd (get_schedule example_handle_error crm_server 1700
        (fst (snd after_booking)) (snd (snd after_booking)) (Some example_date) None None))) =
      net_log (snd (snd after_booking)) @ rq # rest"
    using c2 unfolding rq_def by blast
  then have p6: "prefix (net_log (snd (snd after_booking)) @ [rq])
     (net_log (snd (snd (get_schedule example_handle_error crm_server 1700
        (fst (snd after_booking)) (snd (snd after_booking)) (Some example_date) None None))))"
    by (simp add: prefix_def)
  show ?thesis using p1 p2 p3 p4 p5 p6 unfolding rq_def by simp
qed

section \<open>Properties of the idempotency guard and of confirming a booking\<close>








lemma idempotency_key_not_session:
  "prefix ''idempotency:'' k \<Longrightarrow> k \<noteq> get_session_key ch cid"
  by (auto simp: get_session_key_def prefix_def)

lemma idempotency_key_not_cache:
  "prefix ''idempotency:'' k \<Longrightarrow> k \<noteq> cache_get_key entity parts"
  by (cases parts) (auto simp: cache_get_key_def prefix_def)

lemma idempotency_key_not_queue:
  "prefix ''idempotency:'' k \<Longrightarrow> k \<noteq> ''impulse:fallback:queue''"
  by (auto simp: prefix_def)

lemma handle_failure_frame:
  assumes "handle_failure h now r a e = (e', r')" and "k \<noteq> ''impulse:fallback:queue''"
  shows "r' k = r k"
  using assms
  by (auto simp: handle_failure_def enqueue_def lpush_def
      split: prod.splits sum.splits option.splits redis_value.splits if_splits)

lemma find_client_frame:
  assumes "find_client h srv now r cs p = (y, r', cs')" and "k \<noteq> ''impulse:fallback:queue''"
  shows "r' k = r k"
  using assms
  by (auto simp: find_client_def Let_def dest: handle_failure_frame
      split: prod.splits sum.splits list.splits)

lemma create_client_frame:
  assumes "create_client h srv now r cs n p = (y, r', cs')" and "k \<noteq> ''impulse:fallback:queue''"
  shows "r' k = r k"
  using assms
  by (auto simp: create_client_def Let_def dest: handle_failure_frame
      split: prod.splits sum.splits)

lemma find_or_create_client_frame:
  assumes "find_or_create_client ev now s r cs = (y, r', cs')"
    and "k \<noteq> ''impulse:fallback:queue''"
  shows "r' k = r k"
proof -
  obtain z r1 cs1 where f: "find_client (env_handle_error ev) (env_server ev) now r cs
      (client_phone (slots s)) = (z, r1, cs1)"
    by (cases "find_client (env_handle_error ev) (env_server ev) now r cs
      (client_phone (slots s))")
  note r1 = find_client_frame[OF f assms(2)]
  show ?thesis
  proof (cases z)
    case (Inl e)
    then show ?thesis using assms(1) f r1 by (simp add: find_or_create_client_def)
  next
    case (Inr found)
    show ?thesis
    proof (cases found)
      case (Some c)
      then show ?thesis using assms(1) f r1 Inr by (simp add: find_or_create_client_def)
    next
      case None
      then have "create_client (env_handle_error ev) (env_server ev) now r1 cs1
            (if truthy_str (client_name (slots s)) then the (client_name (slots s))
             else default_client_name)
            (client_phone (slots s)) = (y, r', cs')"
        using assms(1) f Inr by (simp add: find_or_create_client_def)
      from create_client_frame[OF this assms(2)] r1 show ?thesis by simp
    qed
  qed
qed

lemma get_groups_frame:
  assumes "get_groups h srv now r cs = (y, r', cs')" and "k \<noteq> ''impulse:fallback:queue''"
    and "k \<noteq> cache_get_key ''groups'' []"
  shows "r' k = r k"
  using assms
  by (auto simp: get_groups_def Let_def cache_set_def redis_set_def dest: handle_failure_frame
      split: prod.splits sum.splits option.splits redis_value.splits if_splits)

lemma get_schedule_frame:
  assumes "get_schedule h srv now r cs df dt g = (y, r', cs')"
    and "k \<noteq> ''impulse:fallback:queue''"
    and "k \<noteq> cache_get_key ''schedule'' [schedule_cache_key df dt g]"
  shows "r' k = r k"
  using assms
  by (auto simp: get_schedule_def Let_def cache_set_def redis_set_def dest: handle_failure_frame
      split: prod.splits sum.splits option.splits redis_value.splits if_splits)

lemma transition_state_frame:
  assumes "k \<noteq> get_session_key (channel s) (chat_id s)"
  shows "snd (snd (transition_state cfg now s t r)) k = r k"
  using assms
  by (auto simp: transition_state_def save_session_def redis_set_def Let_def
      split: prod.splits sum.splits if_splits)

text \<open>
  C9. \<open>confirm_booking\<close> is called in state \<open>CONFIRM_BOOKING\<close>, with a group and a resolved
  date and time in the slots and no schedule identifier pinned. When the client is found or
  created, the groups and the schedule are fetched, and no entry of the schedule fits the
  date, the time and the group (or the first that fits has the identifier 0), the call
  returns the message that no suitable class was found. The transition to
  \<open>BOOKING_IN_PROGRESS\<close> has succeeded and is the only change to the session, which
  expires 30 seconds later: there is no transition back to \<open>IDLE\<close>. Every key of the store
  that begins with \<open>idempotency:\<close> is as it was before the call, so no lock was acquired
  and none released.
\<close>

theorem no_schedule_stays_in_progress:
  assumes grp: "truthy_str (group (slots s))"
    and dt: "datetime_resolved (slots s) = Some d"
    and unpinned: "\<not> truthy_str (schedule_id (slots s))"
    and confirming: "state s = CONFIRM_BOOKING"
    and moved: "transition_state (env_settings ev) now s BOOKING_IN_PROGRESS r = (moving, s1, r1)"
    and cl: "find_or_create_client ev now s1 r1 cs = (Inr c, r2, cs2)"
    and gs: "get_groups (env_handle_error ev) (env_server ev) now r2 cs2 = (Inr groups, r3, cs3)"
    and sc: "get_schedule (env_handle_error ev) (env_server ev) now r3 cs3
               (Some (date_of d)) None None = (Inr schedules, r4, cs4)"
    and nomatch: "find_schedule (date_isoformat d) (time_hm d)
               (find_group_id (env_lower ev) (env_lower ev (the (group (slots s)))) groups)
               schedules \<in> {None, Some 0}"
  shows "confirm_booking ev now s r cs = (Inr no_suitable_class_message, s1, r4, cs4) \<and>
         moving = Inr True \<and>
         s1 = s\<lparr>state := BOOKING_IN_PROGRESS, updated_at := now, expires_at := now + 30\<rparr> \<and>
         (\<forall>k. prefix ''idempotency:'' k \<longrightarrow> r4 k = r k)"
proof (intro conjI allI impI)
  have allowed: "can_transition (state s) BOOKING_IN_PROGRESS"
    by (simp add: confirming can_transition_def)
  from moved allowed show moving: "moving = Inr True"
    by (simp add: transition_state_def save_session_def redis_set_def Let_def)
  from moved allowed
  show s1: "s1 = s\<lparr>state := BOOKING_IN_PROGRESS, updated_at := now, expires_at := now + 30\<rparr>"
    by (simp add: transition_state_def save_session_def redis_set_def Let_def)
  have slots: "slots s1 = slots s" by (simp add: s1)
  have "resolve_schedule_id ev now s1 r2 cs2 = (Inr (Inl no_suitable_class_message), r4, cs4)"
    using grp dt unpinned gs sc nomatch
    by (auto simp: resolve_schedule_id_def slots)
  then have "booking_attempt ev now s1 r1 cs = (Inr no_suitable_class_message, s1, r4, cs4)"
    using cl by (simp add: booking_attempt_def)
  then show "confirm_booking ev now s r cs = (Inr no_suitable_class_message, s1, r4, cs4)"
    using grp dt moved moving by (simp add: confirm_booking_def)
next
  fix k :: string
  assume k: "prefix ''idempotency:'' k"
  have "r1 k = r k"
    using transition_state_frame[where s = s and cfg = "env_settings ev" and now = now
        and t = BOOKING_IN_PROGRESS and r = r, OF idempotency_key_not_session[OF k]] moved
    by simp
  moreover have "r2 k = r1 k"
    by (rule find_or_create_client_frame[OF cl idempotency_key_not_queue[OF k]])
  moreover have "r3 k = r2 k"
    by (rule get_groups_frame[OF gs idempotency_key_not_queue[OF k]
          idempotency_key_not_cache[OF k]])
  moreover have "r4 k = r3 k"
    by (rule get_schedule_frame[OF sc idempotency_key_not_queue[OF k]
          idempotency_key_not_cache[OF k]])
  ultimately show "r4 k = r k" by simp
qed

lemma booking_slots_date:
  "date_isoformat \<lparr>dt_year = 2024, dt_month = 5, dt_day = 19, dt_hour = 19,
        dt_minute = 0, dt_second = 0\<rparr> = ''2024-05-19''"
  by code_simp

lemma booking_slots_group: "ascii_lower (ascii ''Hip-Hop'') = ascii ''hip-hop''"
  by (simp add: ascii_lower_def ascii_def)

lemma example_group_lower: "ascii_lower (ascii ''Hip-hop'') = ascii ''hip-hop''"
  by (simp add: ascii_lower_def ascii_def)

text \<open>
  C9 for a session that asks for 19 May 2024 at 19:00 while the CRM has a class on 18 May
  only, with a lock for another booking in the store: the lock is still there, no other
  lock has appeared, and the CRM was asked for the client, the groups and the schedule.
\<close>

theorem no_schedule_stays_in_progress_witness:
  "fst unmatched_confirm = Inr no_suitable_class_message \<and>
   fst (snd unmatched_confirm) =
     (example_session CONFIRM_BOOKING booking_slots)
       \<lparr>state := BOOKING_IN_PROGRESS, updated_at := 1000, expires_at := 1030\<rparr> \<and>
   fst (snd (snd unmatched_confirm)) example_lock_key = locked_store example_lock_key \<and>
   fst (snd (snd unmatched_confirm))
     (get_idempotency_key (compute_fingerprint example_sha256_hex (ascii ''89990001122'')
        (Sid_int 12))) = None \<and>
   map rq_entity (net_log (snd (snd (snd unmatched_confirm)))) =
     [''client'', ''group'', ''schedule'']"
proof -
  define d where "d = \<lparr>dt_year = 2024, dt_month = 5, dt_day = 19, dt_hour = 19,
        dt_minute = 0, dt_second = 0\<rparr>"
  define s where "s = example_session CONFIRM_BOOKING booking_slots"
  define s1 where "s1 = s\<lparr>state := BOOKING_IN_PROGRESS, updated_at := 1000, expires_at := 1030\<rparr>"
  define r1 where "r1 = locked_store(get_session_key ''telegram'' ''42'' \<mapsto>
     \<lparr>entry_value = Json_session s1, entry_expiry = Some 1030\<rparr>)"
  define c0 where "c0 = client_with new_circuit_breaker"
  define rq1 where "rq1 = list_request ''client'' client_fields
     [(''phone'', j_opt_str (Some (ascii ''89990001122'')))] 1"
  define rq2 where "rq2 = list_request ''group'' group_fields [] 1000"
  define rq3 where "rq3 = list_request ''schedule'' schedule_fields
     (schedule_filters (Some (date_of d)) None) 1000"
  define b1 where "b1 = record_success new_circuit_breaker"
  define c1 where "c1 = c0\<lparr>breaker := b1, net_log := [rq1]\<rparr>"
  define c2 where "c2 = c1\<lparr>breaker := record_success b1, net_log := [rq1, rq2]\<rparr>"
  define c3 where "c3 = c2\<lparr>breaker := record_success (record_success b1),
     net_log := [rq1, rq2, rq3]\<rparr>"
  define r3 where "r3 = r1(cache_get_key ''groups'' [] \<mapsto>
     \<lparr>entry_value = Json_groups [example_group], entry_expiry = Some (1000 + 3600)\<rparr>)"
  define r4 where "r4 = r3(cache_get_key ''schedule''
       [schedule_cache_key (Some (date_of d)) None None] \<mapsto>
     \<lparr>entry_value = Json_schedules [example_schedule], entry_expiry = Some (1000 + 900)\<rparr>)"
  have sl: "slots s = booking_slots" "state s = CONFIRM_BOOKING"
      "channel s = ''telegram''" "chat_id s = ''42''"
    by (simp_all add: s_def example_session_def)
  have grp: "truthy_str (group (slots s))"
    by (simp add: sl booking_slots_def truthy_str_def ascii_def)
  have dt: "datetime_resolved (slots s) = Some d" by (simp add: sl booking_slots_def d_def)
  have unpinned: "\<not> truthy_str (schedule_id (slots s))"
    by (simp add: sl booking_slots_def truthy_str_def)
  have moved: "transition_state (env_settings example_env) 1000 s BOOKING_IN_PROGRESS
      locked_store = (Inr True, s1, r1)"
    by (simp add: transition_state_def save_session_def redis_set_def Let_def sl
        can_transition_def s1_def r1_def)
  have open0: "\<not> is_open (breaker c0)" "net_log c0 = []"
    by (simp_all add: c0_def client_with_def new_circuit_breaker_def)
  have closed: "\<not> is_open b1" "\<not> is_open (record_success b1)"
    by (simp_all add: b1_def record_success_def)
  have fc: "client_list crm_server 1000 c0 ''client'' client_fields
      [(''phone'', j_opt_str (Some (ascii ''89990001122'')))] 1 =
      (Inr [Client_row receipt_client], c1)"
    using client_list_ok[where srv = crm_server and cs = c0 and now = 1000
        and entity = "''client''" and fs = client_fields
        and filters = "[(''phone'', j_opt_str (Some (ascii ''89990001122'')))]" and limit = 1
        and rows = "[Client_row receipt_client]" and status = 200,
        OF should_attempt_closed[OF open0(1)]]
    by (simp add: crm_server_def list_request_def open0 c1_def rq1_def b1_def c0_def
        client_with_def)
  have cl: "find_or_create_client example_env 1000 s1 r1 c0 = (Inr receipt_client, r1, c1)"
    using fc
    by (simp add: find_or_create_client_def find_client_def example_env_def s1_def sl
        booking_slots_def)
  have gmiss: "cache_get 1000 r1 ''groups'' [] = Inr None"
    by (rule cache_get_absent)
      (simp add: r1_def locked_store_def cache_get_key_def get_session_key_def
        example_lock_key_def get_idempotency_key_def)
  have gl: "client_list crm_server 1000 c1 ''group'' group_fields [] 1000 =
      (Inr [Group_row example_group], c2)"
    using client_list_ok[where srv = crm_server and cs = c1 and now = 1000
        and entity = "''group''" and fs = group_fields and filters = "[]" and limit = 1000
        and rows = "[Group_row example_group]" and status = 200 and cb = b1]
      should_attempt_closed[OF closed(1), of 1000]
    by (simp add: crm_server_def list_request_def c1_def c2_def rq1_def rq2_def)
  have gs: "get_groups (env_handle_error example_env) (env_server example_env) 1000 r1 c1 =
      (Inr [example_group], r3, c2)"
    using gmiss gl
    by (simp add: get_groups_def example_env_def cache_set_def redis_set_def cache_get_ttl_def
        r3_def)
  have smiss: "redis_get 1000 r3 (cache_get_key ''schedule''
      [schedule_cache_key (Some (date_of d)) None None]) = None"
    by (simp add: redis_get_def live_def r3_def r1_def locked_store_def cache_get_key_def
        get_session_key_def example_lock_key_def get_idempotency_key_def)
  have sc: "get_schedule (env_handle_error example_env) (env_server example_env) 1000 r3 c2
      (Some (date_of d)) None None = (Inr [example_schedule], r4, c3)"
    using get_schedule_miss_ok[where srv = crm_server and h = example_handle_error
        and cs = c2 and now = 1000 and r = r3 and df = "Some (date_of d)" and dt = None
        and g = None and rows = "[Schedule_row example_schedule]" and status = 200
        and schedules = "[example_schedule]" and cb = "record_success b1", OF smiss]
      should_attempt_closed[OF closed(2), of 1000]
    by (simp add: crm_server_def list_request_def c1_def c2_def c3_def rq1_def rq2_def rq3_def
        example_env_def r4_def)
  have gid: "find_group_id (env_lower example_env)
      (env_lower example_env (the (group (slots s)))) [example_group] = Some 4"
    by (simp add: example_env_def sl booking_slots_def booking_slots_group example_group_lower
        example_group_def)
  have nomatch: "find_schedule (date_isoformat d) (time_hm d)
      (find_group_id (env_lower example_env)
         (env_lower example_env (the (group (slots s)))) [example_group])
      [example_schedule] \<in> {None, Some 0}"
    unfolding gid d_def booking_slots_date
    by (simp add: schedule_fits_def example_schedule_def)
  note th = no_schedule_stays_in_progress[OF grp dt unpinned sl(2) moved cl gs sc nomatch]
  then have res: "confirm_booking example_env 1000 s locked_store c0 =
      (Inr no_suitable_class_message, s1, r4, c3)" by blast
  from th have frame: "\<forall>k. prefix ''idempotency:'' k \<longrightarrow> r4 k = locked_store k" by blast
  have u: "unmatched_confirm = (Inr no_suitable_class_message, s1, r4, c3)"
    unfolding unmatched_confirm_def using res by (simp add: s_def c0_def)
  have k1: "r4 example_lock_key = locked_store example_lock_key"
    using frame by (simp add: example_lock_key_def get_idempotency_key_def)
  have k2: "r4 (get_idempotency_key (compute_fingerprint example_sha256_hex
      (ascii ''89990001122'') (Sid_int 12))) =
    locked_store (get_idempotency_key (compute_fingerprint example_sha256_hex
      (ascii ''89990001122'') (Sid_int 12)))"
    using frame by (simp add: get_idempotency_key_def)
  have "get_idempotency_key (compute_fingerprint example_sha256_hex
      (ascii ''89990001122'') (Sid_int 12)) \<noteq> example_lock_key"
    by code_simp
  then have other: "locked_store (get_idempotency_key (compute_fingerprint example_sha256_hex
      (ascii ''89990001122'') (Sid_int 12))) = None"
    by (simp add: locked_store_def)
  have entities: "map rq_entity (net_log c3) = [''client'', ''group'', ''schedule'']"
    by (simp add: c3_def rq1_def rq2_def rq3_def list_request_def)
  show ?thesis
    unfolding u using k1 k2 other entities by (simp add: s1_def s_def)
qed

end
